theory Spec2Isabelle
  imports Complex_Main "HOL-Library.Multiset"
begin

section \<open>Data model\<close>

text \<open>
  The backend is C# on ASP.NET Core with Entity Framework; the dashboard is TypeScript.
  A \<open>Guid\<close> is an opaque identifier, a \<open>DateTime\<close> a point on a discrete time line and a
  \<open>decimal\<close> an exact rational number. A C# \<open>string\<close> is a list of characters; a
  nullable \<open>string?\<close>, \<open>long?\<close> or \<open>decimal?\<close> is an \<open>option\<close> with \<open>None\<close> for null.
\<close>

type_synonym Guid = nat
type_synonym DateTime = int
type_synonym decimal = rat

text \<open>Models/User.cs: the entities \<open>User\<close> and \<open>Book\<close>.\<close>

record User =
  Id :: Guid
  Email :: string
  PasswordHash :: string
  FullName :: "string option"
  CreatedAt :: DateTime
  UpdatedAt :: DateTime

record Book =
  Id :: Guid
  Name :: string
  Category :: string
  Price :: decimal
  Description :: string
  UserId :: Guid
  CreatedAt :: DateTime
  UpdatedAt :: DateTime
  ImageUrl :: "string option"
  FileUrl :: "string option"
  FileName :: "string option"
  FileSize :: "int option"
  User :: "User option"  \<comment> \<open>navigation property, filled by \<open>Include\<close>\<close>

text \<open>DTOs/BookDTOs.cs.\<close>

record CreateBookDto =
  Name :: string
  Category :: string
  Price :: decimal
  Description :: string
  ImageUrl :: "string option"
  FileUrl :: "string option"
  FileName :: "string option"
  FileSize :: "int option"

record UpdateBookDto =
  Name :: string
  Category :: string
  Price :: decimal
  Description :: string
  ImageUrl :: "string option"
  FileUrl :: "string option"
  FileName :: "string option"
  FileSize :: "int option"

record UserDto =
  Id :: Guid
  Email :: string
  FullName :: "string option"
  CreatedAt :: DateTime

record BookDto =
  Id :: Guid
  Name :: string
  Category :: string
  Price :: decimal
  Description :: string
  UserId :: Guid
  CreatedAt :: DateTime
  UpdatedAt :: DateTime
  ImageUrl :: "string option"
  FileUrl :: "string option"
  FileName :: "string option"
  FileSize :: "int option"
  User :: "UserDto option"

record BookFiltersDto =
  Search :: "string option"
  Category :: "string option"
  MinPrice :: "decimal option"
  MaxPrice :: "decimal option"
  Page :: int
  PageSize :: int

text \<open>
  Data/BookStoreContext: the two tables. \<open>Books\<close> is kept in insertion order; \<open>Book.Id\<close> is
  its primary key and \<open>Book.UserId\<close> a foreign key into \<open>Users\<close>.
\<close>

record BookStoreContext =
  Users :: "User list"
  Books :: "Book list"

definition primary_key :: "BookStoreContext \<Rightarrow> bool" where
  "primary_key ctx = distinct (map Book.Id (Books ctx))"

section \<open>Strings\<close>

text \<open>
  \<open>ToLower\<close> on the characters the model has (the Latin-1 range): \<open>A\<close>..\<open>Z\<close> and the
  accented capitals U+00C0..U+00DE except the multiplication sign move up by 32.
\<close>

definition ToLower_char :: "char \<Rightarrow> char" where
  "ToLower_char c =
     (let n = (of_char c :: nat)
      in if (65 \<le> n \<and> n \<le> 90) \<or> (192 \<le> n \<and> n \<le> 222 \<and> n \<noteq> 215)
         then char_of (n + 32) else c)"

definition ToLower :: "string \<Rightarrow> string" where
  "ToLower s = map ToLower_char s"

fun StartsWith :: "string \<Rightarrow> string \<Rightarrow> bool" where
  "StartsWith s [] = True"
| "StartsWith [] (y # ys) = False"
| "StartsWith (x # xs) (y # ys) = (x = y \<and> StartsWith xs ys)"

text \<open>\<open>s.Contains(t)\<close>: \<open>t\<close> starts at some position of \<open>s\<close>.\<close>

fun Contains :: "string \<Rightarrow> string \<Rightarrow> bool" where
  "Contains [] t = (t = [])"
| "Contains (x # xs) t = (StartsWith (x # xs) t \<or> Contains xs t)"

section \<open>BookRepository\<close>

text \<open>\<open>.Include(b => b.User)\<close>: load the navigation property through the foreign key.\<close>

definition Include_User :: "BookStoreContext \<Rightarrow> Book \<Rightarrow> Book" where
  "Include_User ctx b = b\<lparr>Book.User := find (\<lambda>u. User.Id u = Book.UserId b) (Users ctx)\<rparr>"

text \<open>\<open>.OrderByDescending(b => b.CreatedAt)\<close>: a stable sort, newest first.\<close>

definition OrderByDescending_CreatedAt :: "Book list \<Rightarrow> Book list" where
  "OrderByDescending_CreatedAt query = sort_key (\<lambda>b. - Book.CreatedAt b) query"

definition GetAllAsync :: "BookStoreContext \<Rightarrow> BookFiltersDto option \<Rightarrow> Book list" where
  "GetAllAsync ctx filters =
     (let query = map (Include_User ctx) (Books ctx);
          query =
            (case filters of
               None \<Rightarrow> query
             | Some f \<Rightarrow>
                 (let query =
                        (case Search f of
                           None \<Rightarrow> query
                         | Some s \<Rightarrow>
                             if s \<noteq> [] then
                               (let searchLower = ToLower s
                                in filter (\<lambda>b. Contains (ToLower (Book.Name b)) searchLower \<or>
                                               Contains (ToLower (Book.Description b)) searchLower)
                                     query)
                             else query);
                      query =
                        (case BookFiltersDto.Category f of
                           None \<Rightarrow> query
                         | Some c \<Rightarrow>
                             if c \<noteq> [] then filter (\<lambda>b. Book.Category b = c) query else query);
                      query =
                        (case MinPrice f of
                           None \<Rightarrow> query
                         | Some m \<Rightarrow> filter (\<lambda>b. Book.Price b \<ge> m) query);
                      query =
                        (case MaxPrice f of
                           None \<Rightarrow> query
                         | Some m \<Rightarrow> filter (\<lambda>b. Book.Price b \<le> m) query)
                  in query))
      in OrderByDescending_CreatedAt query)"

definition GetByUserIdAsync ::
  "BookStoreContext \<Rightarrow> Guid \<Rightarrow> BookFiltersDto option \<Rightarrow> Book list" where
  "GetByUserIdAsync ctx userId filters =
     (let query = filter (\<lambda>b. Book.UserId b = userId) (map (Include_User ctx) (Books ctx));
          query =
            (case filters of
               None \<Rightarrow> query
             | Some f \<Rightarrow>
                 (let query =
                        (case Search f of
                           None \<Rightarrow> query
                         | Some s \<Rightarrow>
                             if s \<noteq> [] then
                               (let searchLower = ToLower s
                                in filter (\<lambda>b. Contains (ToLower (Book.Name b)) searchLower \<or>
                                               Contains (ToLower (Book.Description b)) searchLower)
                                     query)
                             else query);
                      query =
                        (case BookFiltersDto.Category f of
                           None \<Rightarrow> query
                         | Some c \<Rightarrow>
                             if c \<noteq> [] then filter (\<lambda>b. Book.Category b = c) query else query);
                      query =
                        (case MinPrice f of
                           None \<Rightarrow> query
                         | Some m \<Rightarrow> filter (\<lambda>b. Book.Price b \<ge> m) query);
                      query =
                        (case MaxPrice f of
                           None \<Rightarrow> query
                         | Some m \<Rightarrow> filter (\<lambda>b. Book.Price b \<le> m) query)
                  in query))
      in OrderByDescending_CreatedAt query)"

definition GetByIdAsync :: "BookStoreContext \<Rightarrow> Guid \<Rightarrow> Book option" where
  "GetByIdAsync ctx id' = find (\<lambda>b. Book.Id b = id') (map (Include_User ctx) (Books ctx))"

definition ExistsAsync :: "BookStoreContext \<Rightarrow> Guid \<Rightarrow> Guid \<Rightarrow> bool" where
  "ExistsAsync ctx id' userId =
     list_ex (\<lambda>b. Book.Id b = id' \<and> Book.UserId b = userId) (Books ctx)"

text \<open>
  Saving: \<open>SaveChangesAsync\<close> first runs \<open>UpdateTimestamps\<close> (an added book gets
  \<open>CreatedAt\<close> and \<open>UpdatedAt\<close>, a modified one \<open>UpdatedAt\<close> only) and then writes the row.
  Every \<open>DateTime.UtcNow\<close> is a reading of its own: \<open>now n\<close> is the \<open>n\<close>-th reading since
  the function was entered.
  The database refuses a second row with the same primary key and a row whose \<open>UserId\<close>
  names no user; Entity Framework raises \<open>DbUpdateException\<close> then. A row holds the
  columns only, so the navigation property is dropped on the way in.
\<close>

type_synonym Clock = "nat \<Rightarrow> DateTime"

datatype Exception = UnauthorizedAccessException | DbUpdateException

definition UpdateTimestamps_Added :: "Clock \<Rightarrow> Book \<Rightarrow> Book" where
  "UpdateTimestamps_Added now book = book\<lparr>Book.CreatedAt := now 0, Book.UpdatedAt := now 1\<rparr>"

definition UpdateTimestamps_Modified :: "Clock \<Rightarrow> Book \<Rightarrow> Book" where
  "UpdateTimestamps_Modified now book = book\<lparr>Book.UpdatedAt := now 0\<rparr>"

text \<open>
  The price column is \<open>decimal(10,2)\<close>: the database keeps two fraction digits, rounding
  half away from zero, and refuses a value that then needs more than eight digits before
  the point.
\<close>

definition numeric_10_2 :: "decimal \<Rightarrow> decimal option" where
  "numeric_10_2 v =
     (let r = sgn v * of_int \<lfloor>\<bar>v\<bar> * 100 + 1 / 2\<rfloor> / 100
      in if \<bar>r\<bar> < 100000000 then Some r else None)"

text \<open>
  \<open>GetByIdAsync(book.Id) ?? book\<close> after saving runs on the context that tracks \<open>book\<close>:
  the query hands back that same object, its properties as they are in memory, with the
  navigation property filled in from the row's owner. The stored row is what a later
  request reads.
\<close>

definition CreateAsync ::
  "BookStoreContext \<Rightarrow> Clock \<Rightarrow> Book \<Rightarrow> Exception + (Book \<times> BookStoreContext)" where
  "CreateAsync ctx now book =
     (let book = UpdateTimestamps_Added now book
      in case numeric_10_2 (Book.Price book) of
           None \<Rightarrow> Inl DbUpdateException
         | Some price \<Rightarrow>
             if list_ex (\<lambda>b. Book.Id b = Book.Id book) (Books ctx) \<or>
                \<not> list_ex (\<lambda>u. User.Id u = Book.UserId book) (Users ctx)
             then Inl DbUpdateException
             else
               (let ctx = ctx\<lparr>Books :=
                            Books ctx @ [book\<lparr>Book.Price := price, Book.User := None\<rparr>]\<rparr>
                in Inr (case GetByIdAsync ctx (Book.Id book) of
                          Some b \<Rightarrow> book\<lparr>Book.User := Book.User b\<rparr>
                        | None \<Rightarrow> book, ctx)))"

definition UpdateAsync ::
  "BookStoreContext \<Rightarrow> Clock \<Rightarrow> Book \<Rightarrow> Exception + (Book \<times> BookStoreContext)" where
  "UpdateAsync ctx now book =
     (let book = UpdateTimestamps_Modified now book
      in case numeric_10_2 (Book.Price book) of
           None \<Rightarrow> Inl DbUpdateException
         | Some price \<Rightarrow>
             if \<not> list_ex (\<lambda>b. Book.Id b = Book.Id book) (Books ctx) \<or>
                \<not> list_ex (\<lambda>u. User.Id u = Book.UserId book) (Users ctx)
             then Inl DbUpdateException
             else
               (let ctx = ctx\<lparr>Books :=
                            map (\<lambda>b. if Book.Id b = Book.Id book
                                     then book\<lparr>Book.Price := price, Book.User := None\<rparr> else b)
                              (Books ctx)\<rparr>
                in Inr (case GetByIdAsync ctx (Book.Id book) of
                          Some b \<Rightarrow> book\<lparr>Book.User := Book.User b\<rparr>
                        | None \<Rightarrow> book, ctx)))"

text \<open>\<open>Remove(book)\<close> deletes the row with the primary key of \<open>book\<close>.\<close>

definition DeleteAsync :: "BookStoreContext \<Rightarrow> Guid \<Rightarrow> Guid \<Rightarrow> bool \<times> BookStoreContext" where
  "DeleteAsync ctx id' userId =
     (case find (\<lambda>b. Book.Id b = id' \<and> Book.UserId b = userId) (Books ctx) of
        None \<Rightarrow> (False, ctx)
      | Some book \<Rightarrow>
          (True, ctx\<lparr>Books := filter (\<lambda>b. Book.Id b \<noteq> Book.Id book) (Books ctx)\<rparr>))"

section \<open>BooksController\<close>

text \<open>
  What an action returns: the status and its body. \<open>ValidationProblem\<close> is the 400 that
  \<open>[ApiController]\<close> sends for an invalid model, with the names of the offending members;
  \<open>Unauthorized\<close> is the 401 of \<open>[Authorize]\<close>.
\<close>

datatype 'a ActionResult =
    Ok 'a
  | CreatedAtAction Guid 'a
  | NoContent
  | BadRequest string
  | ValidationProblem "string list"
  | NotFound string
  | Unauthorized
  | StatusCode nat string

text \<open>
  The caller: anonymous, or authenticated by a token whose \<open>NameIdentifier\<close> claim
  \<open>Guid.TryParse\<close> reads (\<open>Some\<close>) or does not (\<open>None\<close>).
\<close>

datatype ClaimsPrincipal = Anonymous | Authenticated "Guid option"

definition GetCurrentUserId :: "ClaimsPrincipal \<Rightarrow> Exception + Guid" where
  "GetCurrentUserId user =
     (case user of
        Authenticated (Some userId) \<Rightarrow> Inr userId
      | _ \<Rightarrow> Inl UnauthorizedAccessException)"

definition MapToDto :: "Book \<Rightarrow> BookDto" where
  "MapToDto book =
     \<lparr>BookDto.Id = Book.Id book,
      BookDto.Name = Book.Name book,
      BookDto.Category = Book.Category book,
      BookDto.Price = Book.Price book,
      BookDto.Description = Book.Description book,
      BookDto.UserId = Book.UserId book,
      BookDto.CreatedAt = Book.CreatedAt book,
      BookDto.UpdatedAt = Book.UpdatedAt book,
      BookDto.ImageUrl = Book.ImageUrl book,
      BookDto.FileUrl = Book.FileUrl book,
      BookDto.FileName = Book.FileName book,
      BookDto.FileSize = Book.FileSize book,
      BookDto.User =
        (case Book.User book of
           Some u \<Rightarrow>
             Some \<lparr>UserDto.Id = User.Id u, UserDto.Email = User.Email u,
                   UserDto.FullName = User.FullName u, UserDto.CreatedAt = User.CreatedAt u\<rparr>
         | None \<Rightarrow> None)\<rparr>"

definition GetAllBooks :: "BookStoreContext \<Rightarrow> BookFiltersDto \<Rightarrow> BookDto list ActionResult" where
  "GetAllBooks ctx filters =
     (let books = GetAllAsync ctx (Some filters);
          bookDtos = map MapToDto books
      in Ok bookDtos)"

definition GetMyBooks ::
  "BookStoreContext \<Rightarrow> ClaimsPrincipal \<Rightarrow> BookFiltersDto \<Rightarrow> BookDto list ActionResult" where
  "GetMyBooks ctx user filters =
     (case GetCurrentUserId user of
        Inl ex \<Rightarrow> StatusCode 500 ''An error occurred while fetching your books''
      | Inr userId \<Rightarrow>
          (let books = GetByUserIdAsync ctx userId (Some filters);
               bookDtos = map MapToDto books
           in Ok bookDtos))"

definition GetBook :: "BookStoreContext \<Rightarrow> Guid \<Rightarrow> BookDto ActionResult" where
  "GetBook ctx id' =
     (case GetByIdAsync ctx id' of
        None \<Rightarrow> NotFound ''Book not found''
      | Some book \<Rightarrow> Ok (MapToDto book))"

text \<open>
  \<open>new Book { ... }\<close>: the initialisers give the new entity a fresh \<open>Guid\<close> (\<open>newGuid\<close>, the
  value of \<open>Guid.NewGuid()\<close>) and two readings of the clock; \<open>User\<close> is null. Saving reads
  the clock again.
\<close>

definition CreateBook ::
  "BookStoreContext \<Rightarrow> Clock \<Rightarrow> Guid \<Rightarrow> ClaimsPrincipal \<Rightarrow> CreateBookDto \<Rightarrow>
     BookDto ActionResult \<times> BookStoreContext" where
  "CreateBook ctx now newGuid user createBookDto =
     (case GetCurrentUserId user of
        Inl ex \<Rightarrow> (StatusCode 500 ''An error occurred while creating the book'', ctx)
      | Inr userId \<Rightarrow>
          (let book =
                 \<lparr>Book.Id = newGuid,
                  Book.Name = CreateBookDto.Name createBookDto,
                  Book.Category = CreateBookDto.Category createBookDto,
                  Book.Price = CreateBookDto.Price createBookDto,
                  Book.Description = CreateBookDto.Description createBookDto,
                  Book.UserId = userId,
                  Book.CreatedAt = now 0,
                  Book.UpdatedAt = now 1,
                  Book.ImageUrl = CreateBookDto.ImageUrl createBookDto,
                  Book.FileUrl = CreateBookDto.FileUrl createBookDto,
                  Book.FileName = CreateBookDto.FileName createBookDto,
                  Book.FileSize = CreateBookDto.FileSize createBookDto,
                  Book.User = None\<rparr>
           in case CreateAsync ctx (\<lambda>n. now (n + 2)) book of
                Inl ex \<Rightarrow> (StatusCode 500 ''An error occurred while creating the book'', ctx)
              | Inr (createdBook, ctx') \<Rightarrow>
                  (CreatedAtAction (Book.Id createdBook) (MapToDto createdBook), ctx')))"

definition UpdateBook ::
  "BookStoreContext \<Rightarrow> Clock \<Rightarrow> ClaimsPrincipal \<Rightarrow> Guid \<Rightarrow> UpdateBookDto \<Rightarrow>
     BookDto ActionResult \<times> BookStoreContext" where
  "UpdateBook ctx now user id' updateBookDto =
     (case GetCurrentUserId user of
        Inl ex \<Rightarrow> (StatusCode 500 ''An error occurred while updating the book'', ctx)
      | Inr userId \<Rightarrow>
          if \<not> ExistsAsync ctx id' userId then
            (NotFound ''Book not found or you don't have permission to update it'', ctx)
          else
            (case GetByIdAsync ctx id' of
               None \<Rightarrow> (NotFound ''Book not found'', ctx)
             | Some existingBook \<Rightarrow>
                 (let existingBook =
                        existingBook
                          \<lparr>Book.Name := UpdateBookDto.Name updateBookDto,
                           Book.Category := UpdateBookDto.Category updateBookDto,
                           Book.Price := UpdateBookDto.Price updateBookDto,
                           Book.Description := UpdateBookDto.Description updateBookDto,
                           Book.ImageUrl := UpdateBookDto.ImageUrl updateBookDto,
                           Book.FileUrl := UpdateBookDto.FileUrl updateBookDto,
                           Book.FileName := UpdateBookDto.FileName updateBookDto,
                           Book.FileSize := UpdateBookDto.FileSize updateBookDto\<rparr>
                  in case UpdateAsync ctx now existingBook of
                       Inl ex \<Rightarrow>
                         (StatusCode 500 ''An error occurred while updating the book'', ctx)
                     | Inr (updatedBook, ctx') \<Rightarrow> (Ok (MapToDto updatedBook), ctx'))))"

definition DeleteBook ::
  "BookStoreContext \<Rightarrow> ClaimsPrincipal \<Rightarrow> Guid \<Rightarrow> unit ActionResult \<times> BookStoreContext" where
  "DeleteBook ctx user id' =
     (case GetCurrentUserId user of
        Inl ex \<Rightarrow> (StatusCode 500 ''An error occurred while deleting the book'', ctx)
      | Inr userId \<Rightarrow>
          (case DeleteAsync ctx id' userId of
             (deleted, ctx') \<Rightarrow>
               if \<not> deleted then
                 (NotFound ''Book not found or you don't have permission to delete it'', ctx')
               else (NoContent, ctx')))"

section \<open>Model validation\<close>

text \<open>
  The data annotations of the DTOs, as \<open>[ApiController]\<close> evaluates them before the action
  runs. \<open>[Required]\<close> refuses a string that is empty or white space only (a member the
  request leaves out keeps its initialiser, the empty string); \<open>[MaxLength(n)]\<close> counts
  characters; \<open>[Range(lo, hi)]\<close> is inclusive.
\<close>

definition IsWhiteSpace :: "char \<Rightarrow> bool" where
  "IsWhiteSpace c =
     (let n = (of_char c :: nat)
      in n = 32 \<or> (9 \<le> n \<and> n \<le> 13) \<or> n = 160 \<or> n = 133)"

definition Required_IsValid :: "string \<Rightarrow> bool" where
  "Required_IsValid v = (\<not> list_all IsWhiteSpace v)"

definition MaxLength_IsValid :: "nat \<Rightarrow> string \<Rightarrow> bool" where
  "MaxLength_IsValid n v = (length v \<le> n)"

definition Range_IsValid :: "decimal \<Rightarrow> decimal \<Rightarrow> decimal \<Rightarrow> bool" where
  "Range_IsValid lo hi v = (lo \<le> v \<and> v \<le> hi)"

definition Validate_CreateBookDto :: "CreateBookDto \<Rightarrow> string list" where
  "Validate_CreateBookDto dto =
     (if Required_IsValid (CreateBookDto.Name dto) \<and>
         MaxLength_IsValid 255 (CreateBookDto.Name dto) then [] else [''Name'']) @
     (if Required_IsValid (CreateBookDto.Category dto) \<and>
         MaxLength_IsValid 100 (CreateBookDto.Category dto) then [] else [''Category'']) @
     (if Range_IsValid 0 (9999999 / 100) (CreateBookDto.Price dto) then [] else [''Price'']) @
     (if Required_IsValid (CreateBookDto.Description dto) \<and>
         MaxLength_IsValid 1000 (CreateBookDto.Description dto) then [] else [''Description''])"

definition Validate_UpdateBookDto :: "UpdateBookDto \<Rightarrow> string list" where
  "Validate_UpdateBookDto dto =
     (if Required_IsValid (UpdateBookDto.Name dto) \<and>
         MaxLength_IsValid 255 (UpdateBookDto.Name dto) then [] else [''Name'']) @
     (if Required_IsValid (UpdateBookDto.Category dto) \<and>
         MaxLength_IsValid 100 (UpdateBookDto.Category dto) then [] else [''Category'']) @
     (if Range_IsValid 0 (9999999 / 100) (UpdateBookDto.Price dto) then [] else [''Price'']) @
     (if Required_IsValid (UpdateBookDto.Description dto) \<and>
         MaxLength_IsValid 1000 (UpdateBookDto.Description dto) then [] else [''Description''])"

text \<open>
  The endpoints as the attributes compose them: \<open>[Authorize]\<close> answers 401 to an anonymous
  caller, then \<open>[ApiController]\<close> answers 400 to an invalid body, then the action runs.
\<close>

definition POST_books ::
  "BookStoreContext \<Rightarrow> Clock \<Rightarrow> Guid \<Rightarrow> ClaimsPrincipal \<Rightarrow> CreateBookDto \<Rightarrow>
     BookDto ActionResult \<times> BookStoreContext" where
  "POST_books ctx now newGuid user createBookDto =
     (if user = Anonymous then (Unauthorized, ctx)
      else if Validate_CreateBookDto createBookDto \<noteq> []
      then (ValidationProblem (Validate_CreateBookDto createBookDto), ctx)
      else CreateBook ctx now newGuid user createBookDto)"

definition PUT_books ::
  "BookStoreContext \<Rightarrow> Clock \<Rightarrow> ClaimsPrincipal \<Rightarrow> Guid \<Rightarrow> UpdateBookDto \<Rightarrow>
     BookDto ActionResult \<times> BookStoreContext" where
  "PUT_books ctx now user id' updateBookDto =
     (if user = Anonymous then (Unauthorized, ctx)
      else if Validate_UpdateBookDto updateBookDto \<noteq> []
      then (ValidationProblem (Validate_UpdateBookDto updateBookDto), ctx)
      else UpdateBook ctx now user id' updateBookDto)"

definition DELETE_books ::
  "BookStoreContext \<Rightarrow> ClaimsPrincipal \<Rightarrow> Guid \<Rightarrow> unit ActionResult \<times> BookStoreContext" where
  "DELETE_books ctx user id' =
     (if user = Anonymous then (Unauthorized, ctx) else DeleteBook ctx user id')"

definition GET_books_my_books ::
  "BookStoreContext \<Rightarrow> ClaimsPrincipal \<Rightarrow> BookFiltersDto \<Rightarrow> BookDto list ActionResult" where
  "GET_books_my_books ctx user filters =
     (if user = Anonymous then Unauthorized else GetMyBooks ctx user filters)"

section \<open>AuthController\<close>

record LoginDto =
  Email :: string
  Password :: string

record AuthResponseDto =
  Token :: string
  User :: UserDto

text \<open>
  \<open>Login\<close> reaches the user table, the password hash and the token service through
  interfaces; they are parameters here. \<open>Verify\<close> is \<open>BCrypt.Verify\<close>, which answers or
  throws (\<open>None\<close>) on a hash it cannot read.
\<close>

definition Login ::
  "(string \<Rightarrow> User option) \<Rightarrow> (string \<Rightarrow> string \<Rightarrow> bool option) \<Rightarrow> (User \<Rightarrow> string) \<Rightarrow>
     LoginDto \<Rightarrow> AuthResponseDto ActionResult" where
  "Login GetByEmailAsync Verify GenerateToken loginDto =
     (case GetByEmailAsync (LoginDto.Email loginDto) of
        None \<Rightarrow> BadRequest ''Invalid email or password''
      | Some user \<Rightarrow>
          (case Verify (LoginDto.Password loginDto) (User.PasswordHash user) of
             None \<Rightarrow> StatusCode 500 ''An error occurred during login''
           | Some verified \<Rightarrow>
               if \<not> verified then BadRequest ''Invalid email or password''
               else
                 (let token = GenerateToken user;
                      response =
                        \<lparr>AuthResponseDto.Token = token,
                         AuthResponseDto.User =
                           \<lparr>UserDto.Id = User.Id user, UserDto.Email = User.Email user,
                            UserDto.FullName = User.FullName user,
                            UserDto.CreatedAt = User.CreatedAt user\<rparr>\<rparr>
                  in Ok response)))"

section \<open>FilesController\<close>

text \<open>
  An uploaded form file, the host the API runs on, and the part of the file system the
  controller writes: the directories it has created and the files with their bytes.
\<close>

record IFormFile =
  FileName :: string
  Length :: int
  Content :: "nat list"

record WebHost =
  WebRootPath :: string
  IsDirectorySeparator :: "char \<Rightarrow> bool"
  Scheme :: string
  Host :: string

record FileSystem =
  Directories :: "string set"
  Files :: "string \<rightharpoonup> nat list"

record UploadResponse =
  url :: string
  fileName :: string
  size' :: int

definition allowedImageExtensions :: "string list" where
  "allowedImageExtensions = [''.jpg'', ''.jpeg'', ''.png'', ''.gif'', ''.webp'']"

definition allowedBookExtensions :: "string list" where
  "allowedBookExtensions = [''.pdf'', ''.epub'', ''.docx'', ''.doc'', ''.txt'', ''.mobi'', ''.azw3'']"

definition MaxImageSize :: int where
  "MaxImageSize = 5 * 1024 * 1024"

definition MaxBookSize :: int where
  "MaxBookSize = 100 * 1024 * 1024"

definition ToLowerInvariant :: "string \<Rightarrow> string" where
  "ToLowerInvariant s = map ToLower_char s"

text \<open>
  \<open>Path.GetExtension\<close> walks back from the last character: at the first period it
  returns the rest of the name from the period on (nothing when the period is the last
  character); at a directory separator it gives up. \<open>scan\<close> takes the characters still
  to visit, last first, and those already passed.
\<close>

fun GetExtension_scan :: "(char \<Rightarrow> bool) \<Rightarrow> string \<Rightarrow> string \<Rightarrow> string" where
  "GetExtension_scan sep [] passed = []"
| "GetExtension_scan sep (ch # todo) passed =
     (if ch = CHR ''.'' then (if passed \<noteq> [] then ch # passed else [])
      else if sep ch then []
      else GetExtension_scan sep todo (ch # passed))"

definition GetExtension :: "(char \<Rightarrow> bool) \<Rightarrow> string \<Rightarrow> string" where
  "GetExtension sep path = GetExtension_scan sep (rev path) []"

text \<open>\<open>Path.Combine\<close> of two parts: a rooted second part replaces the first.\<close>

definition Path_Combine :: "(char \<Rightarrow> bool) \<Rightarrow> string \<Rightarrow> string \<Rightarrow> string" where
  "Path_Combine sep path1 path2 =
     (if path2 = [] then path1
      else if path1 = [] then path2
      else if sep (hd path2) then path2
      else if sep (last path1) then path1 @ path2
      else path1 @ ''/'' @ path2)"

text \<open>
  \<open>newGuid\<close> is \<open>Guid.NewGuid().ToString()\<close> and \<open>utcNow\<close> the clock printed as
  \<open>yyyyMMddHHmmss\<close>. The size limit in the message is \<open>MaxImageSize / (1024 * 1024)\<close>.
\<close>

definition UploadImage ::
  "WebHost \<Rightarrow> FileSystem \<Rightarrow> ClaimsPrincipal \<Rightarrow> string \<Rightarrow> string \<Rightarrow> IFormFile option \<Rightarrow>
     string option \<Rightarrow> UploadResponse ActionResult \<times> FileSystem" where
  "UploadImage env fs user newGuid utcNow file bookId =
     (case file of
        None \<Rightarrow> (BadRequest ''No file provided'', fs)
      | Some file \<Rightarrow>
          if IFormFile.Length file = 0 then (BadRequest ''No file provided'', fs)
          else if IFormFile.Length file > MaxImageSize then
            (BadRequest ''File size exceeds maximum allowed size of 5MB'', fs)
          else
            (let fileExtension =
                   ToLowerInvariant (GetExtension (IsDirectorySeparator env) (IFormFile.FileName file))
             in if fileExtension \<notin> set allowedImageExtensions then
                  (BadRequest ''Invalid file type. Only image files are allowed.'', fs)
                else
                  (case GetCurrentUserId user of
                     Inl ex \<Rightarrow> (StatusCode 500 ''An error occurred while uploading the image'', fs)
                   | Inr userId \<Rightarrow>
                       (let fileName =
                              (case bookId of Some b \<Rightarrow> b | None \<Rightarrow> newGuid) @ ''-'' @ utcNow @
                              fileExtension;
                            uploadsDir =
                              Path_Combine (IsDirectorySeparator env)
                                (Path_Combine (IsDirectorySeparator env) (WebRootPath env) ''uploads'')
                                ''images'';
                            fs = fs\<lparr>Directories := insert uploadsDir (Directories fs)\<rparr>;
                            filePath = Path_Combine (IsDirectorySeparator env) uploadsDir fileName;
                            fs = fs\<lparr>Files := (Files fs)(filePath \<mapsto> IFormFile.Content file)\<rparr>;
                            fileUrl = Scheme env @ ''://'' @ Host env @ ''/uploads/images/'' @ fileName
                        in (Ok \<lparr>url = fileUrl, fileName = IFormFile.FileName file,
                                size' = IFormFile.Length file\<rparr>, fs)))))"

definition UploadBookFile ::
  "WebHost \<Rightarrow> FileSystem \<Rightarrow> ClaimsPrincipal \<Rightarrow> string \<Rightarrow> string \<Rightarrow> IFormFile option \<Rightarrow>
     string option \<Rightarrow> UploadResponse ActionResult \<times> FileSystem" where
  "UploadBookFile env fs user newGuid utcNow file bookId =
     (case file of
        None \<Rightarrow> (BadRequest ''No file provided'', fs)
      | Some file \<Rightarrow>
          if IFormFile.Length file = 0 then (BadRequest ''No file provided'', fs)
          else if IFormFile.Length file > MaxBookSize then
            (BadRequest ''File size exceeds maximum allowed size of 100MB'', fs)
          else
            (let fileExtension =
                   ToLowerInvariant (GetExtension (IsDirectorySeparator env) (IFormFile.FileName file))
             in if fileExtension \<notin> set allowedBookExtensions then
                  (BadRequest
                     ''Invalid file type. Only book files (PDF, EPUB, DOCX, etc.) are allowed.'', fs)
                else
                  (case GetCurrentUserId user of
                     Inl ex \<Rightarrow>
                       (StatusCode 500 ''An error occurred while uploading the book file'', fs)
                   | Inr userId \<Rightarrow>
                       (let fileName =
                              (case bookId of Some b \<Rightarrow> b | None \<Rightarrow> newGuid) @ ''-'' @ utcNow @
                              fileExtension;
                            uploadsDir =
                              Path_Combine (IsDirectorySeparator env)
                                (Path_Combine (IsDirectorySeparator env) (WebRootPath env) ''uploads'')
                                ''books'';
                            fs = fs\<lparr>Directories := insert uploadsDir (Directories fs)\<rparr>;
                            filePath = Path_Combine (IsDirectorySeparator env) uploadsDir fileName;
                            fs = fs\<lparr>Files := (Files fs)(filePath \<mapsto> IFormFile.Content file)\<rparr>;
                            fileUrl = Scheme env @ ''://'' @ Host env @ ''/uploads/books/'' @ fileName
                        in (Ok \<lparr>url = fileUrl, fileName = IFormFile.FileName file,
                                size' = IFormFile.Length file\<rparr>, fs)))))"

section \<open>JavaScript numbers\<close>

text \<open>
  A JavaScript number is an IEEE 754 double: a finite value, an infinity or NaN. The
  finite doubles are the rationals \<open>m * 2 ^ e\<close> with \<open>\<bar>m\<bar> \<le> 2 ^ 53\<close>, \<open>- 1074 \<le> e\<close> and a
  magnitude below \<open>2 ^ 1024\<close>; the two zeros are one value here (they add and print alike).
\<close>

datatype number = Num rat | PosInfinity | NegInfinity | NaN

function bit_length :: "int \<Rightarrow> nat" where
  "bit_length n = (if n \<le> 0 then 0 else Suc (bit_length (n div 2)))"
  by pat_completeness auto
termination
  by (relation "measure nat") auto

declare bit_length.simps [simp del]

definition pow2 :: "int \<Rightarrow> rat" where
  "pow2 e = (if 0 \<le> e then 2 ^ nat e else 1 / 2 ^ nat (- e))"

text \<open>
  The binary exponent of a positive rational \<open>a\<close>, that is the \<open>k\<close> with
  \<open>2 ^ k \<le> a < 2 ^ (k + 1)\<close>: from the bit length of the integer part when \<open>1 \<le> a\<close>, of
  the reciprocal rounded up otherwise.
\<close>

definition floor_log2 :: "rat \<Rightarrow> int" where
  "floor_log2 a =
     (if 1 \<le> a then int (bit_length \<lfloor>a\<rfloor>) - 1
      else - int (bit_length (\<lceil>1 / a\<rceil> - 1)))"

definition round_half_even :: "rat \<Rightarrow> int" where
  "round_half_even y =
     (let f = \<lfloor>y\<rfloor>; d = y - of_int f
      in if d < 1 / 2 then f
         else if 1 / 2 < d then f + 1
         else if even f then f else f + 1)"

text \<open>
  Rounding to the nearest double, ties to the even significand: the spacing of the
  doubles around \<open>x\<close> is \<open>2 ^ e\<close> with \<open>e\<close> the binary exponent less 52, not below
  \<open>- 1074\<close>; a result of binary exponent 1024 or more (magnitude \<open>2 ^ 1024\<close> or more,
  \<open>floor_log2_ge\<close>) is an infinity.
\<close>

definition round_to_double :: "rat \<Rightarrow> number" where
  "round_to_double x =
     (if x = 0 then Num 0
      else
        (let a = \<bar>x\<bar>;
             e = max (floor_log2 a - 52) (- 1074);
             r = of_int (round_half_even (a / pow2 e)) * pow2 e
         in if 0 < r \<and> 1024 \<le> floor_log2 r
            then (if 0 < x then PosInfinity else NegInfinity)
            else Num (sgn x * r)))"

text \<open>\<open>x + y\<close> on numbers: the exact sum, rounded.\<close>

fun js_add :: "number \<Rightarrow> number \<Rightarrow> number" where
  "js_add NaN y = NaN"
| "js_add x NaN = NaN"
| "js_add PosInfinity NegInfinity = NaN"
| "js_add NegInfinity PosInfinity = NaN"
| "js_add PosInfinity y = PosInfinity"
| "js_add x PosInfinity = PosInfinity"
| "js_add NegInfinity y = NegInfinity"
| "js_add x NegInfinity = NegInfinity"
| "js_add (Num a) (Num b) = round_to_double (a + b)"

text \<open>\<open>x || 0\<close> on a number: zero and NaN are falsy.\<close>

definition or_zero :: "number \<Rightarrow> number" where
  "or_zero x = (if x = NaN \<or> x = Num 0 then Num 0 else x)"

section \<open>Dashboard statistics\<close>

text \<open>
  services/apiService.ts, \<open>getMyBooks(filters?)\<close>: a filter member goes into the query
  string when it is truthy (a string: non-empty) or, for the prices, when it is not
  \<open>undefined\<close>; the server binds what arrives to a \<open>BookFiltersDto\<close> with the defaults
  for the rest. A failed request throws the server's message or a default.
\<close>

record BookFilters =
  search :: "string option"
  category :: "string option"
  minPrice :: "decimal option"
  maxPrice :: "decimal option"

definition query_params :: "BookFilters option \<Rightarrow> BookFiltersDto" where
  "query_params filters =
     \<lparr>BookFiltersDto.Search =
        (case filters of
           None \<Rightarrow> None
         | Some f \<Rightarrow> (case search f of None \<Rightarrow> None | Some s \<Rightarrow> if s \<noteq> [] then Some s else None)),
      BookFiltersDto.Category =
        (case filters of
           None \<Rightarrow> None
         | Some f \<Rightarrow> (case category f of None \<Rightarrow> None | Some c \<Rightarrow> if c \<noteq> [] then Some c else None)),
      BookFiltersDto.MinPrice = (case filters of None \<Rightarrow> None | Some f \<Rightarrow> minPrice f),
      BookFiltersDto.MaxPrice = (case filters of None \<Rightarrow> None | Some f \<Rightarrow> maxPrice f),
      BookFiltersDto.Page = 1,
      BookFiltersDto.PageSize = 20\<rparr>"

text \<open>What an empty query string binds to: no member given, the paging defaults.\<close>

definition no_filter :: BookFiltersDto where
  "no_filter =
     \<lparr>BookFiltersDto.Search = None, BookFiltersDto.Category = None,
      BookFiltersDto.MinPrice = None, BookFiltersDto.MaxPrice = None,
      BookFiltersDto.Page = 1, BookFiltersDto.PageSize = 20\<rparr>"

text \<open>
  services/apiService.ts, interface \<open>Book\<close>: what the client holds after parsing the JSON
  of a \<open>BookDto\<close>. A JSON number becomes the nearest double. The members \<open>id\<close>,
  \<open>userId\<close> and \<open>user\<close> are \<open>ident\<close>, \<open>user_ident\<close> and \<open>user_view\<close> here.
\<close>

record ApiBook =
  ident :: Guid
  name :: string
  category :: string
  price :: number
  description :: string
  user_ident :: Guid
  createdAt :: DateTime
  updatedAt :: DateTime
  imageUrl :: "string option"
  fileUrl :: "string option"
  fileName :: "string option"
  fileSize :: "number option"
  user_view :: "UserDto option"

definition JSON_parse :: "BookDto \<Rightarrow> ApiBook" where
  "JSON_parse dto =
     \<lparr>ApiBook.ident = BookDto.Id dto,
      ApiBook.name = BookDto.Name dto,
      ApiBook.category = BookDto.Category dto,
      ApiBook.price = round_to_double (BookDto.Price dto),
      ApiBook.description = BookDto.Description dto,
      ApiBook.user_ident = BookDto.UserId dto,
      ApiBook.createdAt = BookDto.CreatedAt dto,
      ApiBook.updatedAt = BookDto.UpdatedAt dto,
      ApiBook.imageUrl = BookDto.ImageUrl dto,
      ApiBook.fileUrl = BookDto.FileUrl dto,
      ApiBook.fileName = BookDto.FileName dto,
      ApiBook.fileSize = map_option (\<lambda>n. round_to_double (of_int n)) (BookDto.FileSize dto),
      ApiBook.user_view = BookDto.User dto\<rparr>"

definition getMyBooks ::
  "BookStoreContext \<Rightarrow> ClaimsPrincipal \<Rightarrow> BookFilters option \<Rightarrow> string + ApiBook list" where
  "getMyBooks ctx user filters =
     (case GET_books_my_books ctx user (query_params filters) of
        Ok data \<Rightarrow> Inr (map JSON_parse data)
      | StatusCode code message \<Rightarrow> Inl message
      | _ \<Rightarrow> Inl ''Failed to fetch your books'')"

record Stats =
  totalBooks :: nat
  totalValue :: number
  categoriesCount :: nat

text \<open>\<open>new Set(values)\<close>: the values in order of first occurrence, each once.\<close>

fun Set_add_all :: "'a list \<Rightarrow> 'a list \<Rightarrow> 'a list" where
  "Set_add_all entries [] = entries"
| "Set_add_all entries (v # values) =
     Set_add_all (if v \<in> set entries then entries else entries @ [v]) values"

definition new_Set :: "'a list \<Rightarrow> 'a list" where
  "new_Set values = Set_add_all [] values"

text \<open>
  components/Dashboard.tsx, \<open>loadStats\<close>: on success the component state \<open>stats\<close> is
  replaced, on failure it is left as it was.
\<close>

definition loadStats :: "BookStoreContext \<Rightarrow> ClaimsPrincipal \<Rightarrow> Stats \<Rightarrow> Stats" where
  "loadStats ctx user stats =
     (case getMyBooks ctx user None of
        Inl err \<Rightarrow> stats
      | Inr allBooks \<Rightarrow>
          (let totalBooks = length allBooks;
               totalValue = foldl (\<lambda>sum book. js_add sum (ApiBook.price book)) (Num 0) allBooks;
               categoriesCount = length (new_Set (map ApiBook.category allBooks))
           in \<lparr>totalBooks = totalBooks, totalValue = totalValue,
                categoriesCount = categoriesCount\<rparr>))"

text \<open>
  \<open>BookService.getBookStats\<close> (the Supabase client): the same figures over the rows
  \<open>(price, category)\<close> the query returns, the prices being numbers already; \<open>data\<close> may
  be null.
\<close>

definition getBookStats :: "string + (number \<times> string) list option \<Rightarrow> string + Stats" where
  "getBookStats result =
     (case result of
        Inl message \<Rightarrow> Inl (''Failed to fetch book stats: '' @ message)
      | Inr data \<Rightarrow>
          (let totalBooks = (case data of None \<Rightarrow> 0 | Some d \<Rightarrow> length d);
               totalValue =
                 (case data of
                    None \<Rightarrow> Num 0
                  | Some d \<Rightarrow> or_zero (foldl (\<lambda>sum book. js_add sum (fst book)) (Num 0) d));
               categoriesCount =
                 length (new_Set (case data of None \<Rightarrow> [] | Some d \<Rightarrow> map snd d))
           in Inr \<lparr>totalBooks = totalBooks, totalValue = totalValue,
                    categoriesCount = categoriesCount\<rparr>))"

text \<open>
  The predicate the \<open>Where\<close> chain of both listings computes, in one piece.
\<close>

definition passes :: "BookFiltersDto option \<Rightarrow> Book \<Rightarrow> bool" where
  "passes filters b =
     (case filters of
        None \<Rightarrow> True
      | Some f \<Rightarrow>
          (case Search f of
             None \<Rightarrow> True
           | Some s \<Rightarrow> s = [] \<or> Contains (ToLower (Book.Name b)) (ToLower s) \<or>
                       Contains (ToLower (Book.Description b)) (ToLower s)) \<and>
          (case BookFiltersDto.Category f of
             None \<Rightarrow> True
           | Some c \<Rightarrow> c = [] \<or> Book.Category b = c) \<and>
          (case MinPrice f of None \<Rightarrow> True | Some m \<Rightarrow> m \<le> Book.Price b) \<and>
          (case MaxPrice f of None \<Rightarrow> True | Some m \<Rightarrow> Book.Price b \<le> m))"

section \<open>The filter as the specification words it\<close>

text \<open>
  Two strings are equal up to case when they agree character by character after
  lowering; \<open>t\<close> is a case-insensitive substring of \<open>s\<close> when, at some position of \<open>s\<close>,
  the next \<open>length t\<close> characters equal \<open>t\<close> up to case.
\<close>

definition ci_equal :: "string \<Rightarrow> string \<Rightarrow> bool" where
  "ci_equal s t = (map ToLower_char s = map ToLower_char t)"

definition ci_substring :: "string \<Rightarrow> string \<Rightarrow> bool" where
  "ci_substring t s =
     list_ex (\<lambda>i. ci_equal (take (length t) (drop i s)) t) [0..<Suc (length s)]"

text \<open>
  The filter read word for word: every member that is present constrains the book.
\<close>

definition matches_as_stated :: "BookFiltersDto \<Rightarrow> Book \<Rightarrow> bool" where
  "matches_as_stated f b =
     ((case Search f of
         None \<Rightarrow> True
       | Some s \<Rightarrow> ci_substring s (Book.Name b) \<or> ci_substring s (Book.Description b)) \<and>
      (case BookFiltersDto.Category f of None \<Rightarrow> True | Some c \<Rightarrow> Book.Category b = c) \<and>
      (case MinPrice f of None \<Rightarrow> True | Some m \<Rightarrow> m \<le> Book.Price b) \<and>
      (case MaxPrice f of None \<Rightarrow> True | Some m \<Rightarrow> Book.Price b \<le> m))"

text \<open>
  The same with a category that is present but empty counting as absent.
\<close>

definition matches :: "BookFiltersDto \<Rightarrow> Book \<Rightarrow> bool" where
  "matches f b =
     ((case Search f of
         None \<Rightarrow> True
       | Some s \<Rightarrow> ci_substring s (Book.Name b) \<or> ci_substring s (Book.Description b)) \<and>
      (case BookFiltersDto.Category f of
         None \<Rightarrow> True
       | Some c \<Rightarrow> c = [] \<or> Book.Category b = c) \<and>
      (case MinPrice f of None \<Rightarrow> True | Some m \<Rightarrow> m \<le> Book.Price b) \<and>
      (case MaxPrice f of None \<Rightarrow> True | Some m \<Rightarrow> Book.Price b \<le> m))"

text \<open>
  \<open>g\<close> relaxes \<open>f\<close>: each string member of \<open>g\<close> is that of \<open>f\<close> or absent, the lower
  price bound of \<open>g\<close> is absent or not above that of \<open>f\<close>, the upper one absent or not below.
\<close>

definition relaxes :: "BookFiltersDto \<Rightarrow> BookFiltersDto \<Rightarrow> bool" where
  "relaxes g f =
     ((Search g = None \<or> Search g = Search f) \<and>
      (BookFiltersDto.Category g = None \<or> BookFiltersDto.Category g = BookFiltersDto.Category f) \<and>
      (case MinPrice g of
         None \<Rightarrow> True
       | Some m' \<Rightarrow> (case MinPrice f of None \<Rightarrow> False | Some m \<Rightarrow> m' \<le> m)) \<and>
      (case MaxPrice g of
         None \<Rightarrow> True
       | Some m' \<Rightarrow> (case MaxPrice f of None \<Rightarrow> False | Some m \<Rightarrow> m \<le> m')))"

section \<open>A small population\<close>

definition alice :: User where
  "alice = \<lparr>User.Id = 1, User.Email = ''a@x.com'', User.PasswordHash = ''hash:secret1'',
            User.FullName = Some ''A'', User.CreatedAt = 10, User.UpdatedAt = 10\<rparr>"

definition bob :: User where
  "bob = \<lparr>User.Id = 2, User.Email = ''b@x.com'', User.PasswordHash = ''hash:secret2'',
          User.FullName = None, User.CreatedAt = 20, User.UpdatedAt = 20\<rparr>"

definition hobbit :: Book where
  "hobbit =
     \<lparr>Book.Id = 10, Book.Name = ''The Hobbit'', Book.Category = ''Fiction'',
      Book.Price = 999 / 100, Book.Description = ''A journey there and back'',
      Book.UserId = 1, Book.CreatedAt = 100, Book.UpdatedAt = 100,
      Book.ImageUrl = None, Book.FileUrl = Some ''http://host/uploads/books/h.pdf'',
      Book.FileName = Some ''h.pdf'', Book.FileSize = Some 2048, Book.User = None\<rparr>"

definition cookbook :: Book where
  "cookbook =
     \<lparr>Book.Id = 11, Book.Name = ''Bread'', Book.Category = ''Food'',
      Book.Price = 20, Book.Description = ''Baking at home'',
      Book.UserId = 2, Book.CreatedAt = 200, Book.UpdatedAt = 200,
      Book.ImageUrl = None, Book.FileUrl = None,
      Book.FileName = None, Book.FileSize = None, Book.User = None\<rparr>"

definition shop :: BookStoreContext where
  "shop = \<lparr>Users = [alice, bob], Books = [hobbit, cookbook]\<rparr>"

definition hob_from_5 :: BookFiltersDto where
  "hob_from_5 = no_filter\<lparr>Search := Some ''HOB'', MinPrice := Some 5\<rparr>"

definition from_5 :: BookFiltersDto where
  "from_5 = no_filter\<lparr>MinPrice := Some 5\<rparr>"

definition empty_category :: BookFiltersDto where
  "empty_category = no_filter\<lparr>BookFiltersDto.Category := Some ''''\<rparr>"

definition atlas :: Book where
  "atlas =
     \<lparr>Book.Id = 12, Book.Name = ''Atlas'', Book.Category = ''Maps'',
      Book.Price = 20, Book.Description = ''The world in plates'',
      Book.UserId = 1, Book.CreatedAt = 200, Book.UpdatedAt = 200,
      Book.ImageUrl = None, Book.FileUrl = None,
      Book.FileName = None, Book.FileSize = None, Book.User = None\<rparr>"

definition shelf :: BookStoreContext where
  "shelf = \<lparr>Users = [alice, bob], Books = [hobbit, atlas]\<rparr>"

definition no_stats :: Stats where
  "no_stats = \<lparr>totalBooks = 0, totalValue = Num 0, categoriesCount = 0\<rparr>"

definition noon :: Clock where
  "noon n = 300 + int n"

definition new_price :: UpdateBookDto where
  "new_price =
     \<lparr>UpdateBookDto.Name = ''The Hobbit'', UpdateBookDto.Category = ''Fiction'',
      UpdateBookDto.Price = 12, UpdateBookDto.Description = ''A journey there and back'',
      UpdateBookDto.ImageUrl = None,
      UpdateBookDto.FileUrl = Some ''http://host/uploads/books/h.pdf'',
      UpdateBookDto.FileName = Some ''h.pdf'', UpdateBookDto.FileSize = Some 2048\<rparr>"

definition new_book :: CreateBookDto where
  "new_book =
     \<lparr>CreateBookDto.Name = ''Dune'', CreateBookDto.Category = ''Fiction'',
      CreateBookDto.Price = 999 / 100, CreateBookDto.Description = ''Sand'',
      CreateBookDto.ImageUrl = Some ''http://host/uploads/images/d.png'',
      CreateBookDto.FileUrl = Some ''http://host/uploads/books/d.epub'',
      CreateBookDto.FileName = Some ''d.epub'', CreateBookDto.FileSize = Some 4096\<rparr>"


definition long_description :: CreateBookDto where
  "long_description = new_book\<lparr>CreateBookDto.Description := replicate 1001 (CHR ''a'')\<rparr>"

definition full_description :: CreateBookDto where
  "full_description = new_book\<lparr>CreateBookDto.Description := replicate 1000 (CHR ''a'')\<rparr>"

definition long_description_update :: UpdateBookDto where
  "long_description_update = new_price\<lparr>UpdateBookDto.Description := replicate 1001 (CHR ''a'')\<rparr>"

definition no_name :: CreateBookDto where
  "no_name = new_book\<lparr>CreateBookDto.Name := ''''\<rparr>"

definition long_category :: UpdateBookDto where
  "long_category = new_price\<lparr>UpdateBookDto.Category := replicate 101 (CHR ''c'')\<rparr>"

definition by_email :: "string \<Rightarrow> User option" where
  "by_email email = find (\<lambda>u. User.Email u = email) [alice, bob]"

definition check_hash :: "string \<Rightarrow> string \<Rightarrow> bool option" where
  "check_hash password hash = Some (hash = ''hash:'' @ password)"

definition token_for :: "User \<Rightarrow> string" where
  "token_for user = ''token:'' @ User.Email user"

definition host :: WebHost where
  "host = \<lparr>WebRootPath = ''/srv/wwwroot'', IsDirectorySeparator = (\<lambda>c. c = CHR ''/''),
           Scheme = ''https'', Host = ''books.example''\<rparr>"

definition disk :: FileSystem where
  "disk = \<lparr>Directories = {}, Files = Map.empty\<rparr>"

definition empty_file :: IFormFile where
  "empty_file = \<lparr>IFormFile.FileName = ''cover.png'', Length = 0, Content = []\<rparr>"

definition huge_file :: IFormFile where
  "huge_file = \<lparr>IFormFile.FileName = ''cover.exe'', Length = 100 * 1024 * 1024 + 1, Content = [0]\<rparr>"

definition exe_file :: IFormFile where
  "exe_file = \<lparr>IFormFile.FileName = ''cover.exe'', Length = 3, Content = [77, 90, 0]\<rparr>"

definition png_file :: IFormFile where
  "png_file = \<lparr>IFormFile.FileName = ''Cover.PNG'', Length = 3, Content = [137, 80, 78]\<rparr>"

section \<open>Strings: lemmas\<close>

lemmas lower_eval = ToLower_def ToLower_char_def char_of_def bit_Suc_0_iff

lemma StartsWith_iff: "StartsWith s t \<longleftrightarrow> take (length t) s = t"
  by (induction s t rule: StartsWith.induct) auto

lemma Contains_iff:
  "Contains s t \<longleftrightarrow> (\<exists>i\<le>length s. take (length t) (drop i s) = t)"
proof (induction s)
  case Nil
  then show ?case by auto
next
  case (Cons x xs)
  have "(\<exists>i\<le>length (x # xs). take (length t) (drop i (x # xs)) = t) \<longleftrightarrow>
        take (length t) (x # xs) = t \<or> (\<exists>i\<le>length xs. take (length t) (drop i xs) = t)"
    (is "?L \<longleftrightarrow> ?A \<or> ?B")
  proof
    assume ?L
    then obtain i where i: "i \<le> length (x # xs)" "take (length t) (drop i (x # xs)) = t"
      by blast
    show "?A \<or> ?B"
    proof (cases i)
      case 0
      with i show ?thesis by simp
    next
      case (Suc j)
      with i have "j \<le> length xs" "take (length t) (drop j xs) = t" by simp_all
      then show ?thesis by blast
    qed
  next
    assume "?A \<or> ?B"
    then show ?L
    proof
      assume ?A
      then have "take (length t) (drop 0 (x # xs)) = t" by simp
      then show ?L by blast
    next
      assume ?B
      then obtain j where "j \<le> length xs" "take (length t) (drop j xs) = t" by blast
      then have "Suc j \<le> length (x # xs)" "take (length t) (drop (Suc j) (x # xs)) = t"
        by simp_all
      then show ?L by blast
    qed
  qed
  with Cons show ?case by (simp add: StartsWith_iff del: StartsWith.simps)
qed

lemma Contains_ToLower: "Contains (ToLower s) (ToLower t) = ci_substring t s"
proof -
  have "ci_substring t s \<longleftrightarrow>
        (\<exists>i\<le>length s. map ToLower_char (take (length t) (drop i s)) = map ToLower_char t)"
    unfolding ci_substring_def ci_equal_def list_ex_iff
    by (metis atLeast0LessThan lessThan_iff less_Suc_eq_le set_upt)
  then show ?thesis
    by (simp add: Contains_iff ToLower_def take_map drop_map)
qed

lemma ci_substring_Nil [simp]: "ci_substring [] s"
  by (auto simp: ci_substring_def ci_equal_def list_ex_iff)

section \<open>Listing: lemmas\<close>

lemma passes_Include_User [simp]: "passes filters (Include_User ctx b) = passes filters b"
  by (simp add: passes_def Include_User_def split: option.splits)

lemma UserId_Include_User [simp]: "Book.UserId (Include_User ctx b) = Book.UserId b"
  by (simp add: Include_User_def)

lemma Id_Include_User [simp]: "Book.Id (Include_User ctx b) = Book.Id b"
  by (simp add: Include_User_def)

lemma GetAllAsync_filter:
  "GetAllAsync ctx filters =
     OrderByDescending_CreatedAt (filter (passes filters) (map (Include_User ctx) (Books ctx)))"
proof (cases filters)
  case None
  then show ?thesis by (simp add: GetAllAsync_def passes_def)
next
  case (Some f)
  then show ?thesis
    by (simp add: GetAllAsync_def passes_def Let_def conj_commute conj_left_commute
        split: option.splits cong: filter_cong)
qed

lemma GetByUserIdAsync_filter:
  "GetByUserIdAsync ctx userId filters =
     OrderByDescending_CreatedAt
       (filter (\<lambda>b. Book.UserId b = userId \<and> passes filters b)
          (map (Include_User ctx) (Books ctx)))"
proof (cases filters)
  case None
  then show ?thesis by (simp add: GetByUserIdAsync_def passes_def)
next
  case (Some f)
  then show ?thesis
    by (simp add: GetByUserIdAsync_def passes_def Let_def conj_commute conj_left_commute
        split: option.splits cong: filter_cong)
qed

lemma set_OrderByDescending_CreatedAt [simp]:
  "set (OrderByDescending_CreatedAt xs) = set xs"
  by (simp add: OrderByDescending_CreatedAt_def)

lemma mset_OrderByDescending_CreatedAt [simp]:
  "mset (OrderByDescending_CreatedAt xs) = mset xs"
  by (simp add: OrderByDescending_CreatedAt_def)

lemma passes_matches: "passes (Some f) b = matches f b"
  by (auto simp: passes_def matches_def Contains_ToLower split: option.splits)

lemma relaxes_passes: "relaxes g f \<Longrightarrow> passes (Some f) b \<Longrightarrow> passes (Some g) b"
  by (auto simp: relaxes_def passes_def split: option.splits)

lemma set_GetAllAsync:
  "set (GetAllAsync ctx filters) = Include_User ctx ` {b \<in> set (Books ctx). passes filters b}"
  by (auto simp: GetAllAsync_filter)

lemma set_GetByUserIdAsync:
  "set (GetByUserIdAsync ctx userId filters) =
     Include_User ctx ` {b \<in> set (Books ctx). Book.UserId b = userId \<and> passes filters b}"
  by (auto simp: GetByUserIdAsync_filter)

lemmas shop_eval = shop_def hobbit_def cookbook_def alice_def bob_def no_filter_def

lemmas listing_eval =
  GetAllAsync_def GetByUserIdAsync_def Include_User_def OrderByDescending_CreatedAt_def

section \<open>Listing: the claims\<close>

text \<open>
  C8. For every owner and every filter (also the null filter object), each book that
  \<open>listByOwner\<close> (\<open>GetByUserIdAsync\<close>) returns is among the books \<open>listAll\<close>
  (\<open>GetAllAsync\<close>) returns for the same filter over the same stored population.
\<close>

theorem listByOwner_subset_listAll:
  "set (GetByUserIdAsync ctx ownerId filters) \<subseteq> set (GetAllAsync ctx filters)"
proof
  fix b
  assume "b \<in> set (GetByUserIdAsync ctx ownerId filters)"
  then obtain r where "r \<in> set (Books ctx)" "passes filters r" "b = Include_User ctx r"
    by (auto simp: set_GetByUserIdAsync)
  then show "b \<in> set (GetAllAsync ctx filters)"
    by (auto simp: set_GetAllAsync)
qed

theorem listByOwner_subset_listAll_witness:
  "GetByUserIdAsync shop 1 (Some from_5) = [Include_User shop hobbit] \<and>
   set (GetByUserIdAsync shop 1 (Some from_5)) \<subseteq> set (GetAllAsync shop (Some from_5))"
proof -
  have "GetByUserIdAsync shop 1 (Some from_5) = [Include_User shop hobbit]"
    by (simp add: listing_eval from_5_def shop_eval)
  then show ?thesis
    using listByOwner_subset_listAll [of shop 1 "Some from_5"] by simp
qed

text \<open>
  C2, as amended. For every stored population and every filter, \<open>listAll\<close> returns exactly
  (each once) the stored books that satisfy every member of the filter that is present:
  \<open>search\<close> is a case-insensitive substring match against name or description, \<open>category\<close>
  an exact match unless it is the empty string, which constrains nothing, \<open>minPrice\<close> and
  \<open>maxPrice\<close> inclusive bounds on the price; an absent member constrains nothing, the null
  filter object returns every book, and a relaxed filter returns a superset or the same.
\<close>

theorem listAll_exact:
  "mset (GetAllAsync ctx (Some f)) =
     mset (map (Include_User ctx) (filter (matches f) (Books ctx))) \<and>
   mset (GetAllAsync ctx None) = mset (map (Include_User ctx) (Books ctx)) \<and>
   (relaxes g f \<longrightarrow>
      set (GetAllAsync ctx (Some f)) \<subseteq> set (GetAllAsync ctx (Some g)) \<and>
      set (GetAllAsync ctx (Some f)) \<subseteq> set (GetAllAsync ctx None))"
proof (intro conjI impI)
  show "mset (GetAllAsync ctx (Some f)) =
        mset (map (Include_User ctx) (filter (matches f) (Books ctx)))"
    by (simp add: GetAllAsync_filter filter_map o_def passes_matches)
  show "mset (GetAllAsync ctx None) = mset (map (Include_User ctx) (Books ctx))"
    by (simp add: GetAllAsync_filter passes_def)
  show "set (GetAllAsync ctx (Some f)) \<subseteq> set (GetAllAsync ctx (Some g))" if "relaxes g f"
    using that by (auto simp: set_GetAllAsync dest: relaxes_passes)
  show "set (GetAllAsync ctx (Some f)) \<subseteq> set (GetAllAsync ctx None)"
    by (auto simp: set_GetAllAsync passes_def)
qed

theorem listAll_exact_witness:
  "relaxes from_5 hob_from_5 \<and>
   filter (matches hob_from_5) (Books shop) = [hobbit] \<and>
   mset (GetAllAsync shop (Some hob_from_5)) = {#Include_User shop hobbit#} \<and>
   set (GetAllAsync shop (Some hob_from_5)) \<subseteq> set (GetAllAsync shop (Some from_5))"
proof -
  have r: "relaxes from_5 hob_from_5"
    by (simp add: relaxes_def from_5_def hob_from_5_def no_filter_def)
  have m: "filter (matches hob_from_5) (Books shop) = [hobbit]"
    by code_simp
  note t = listAll_exact [of shop hob_from_5 from_5]
  from t r have s: "set (GetAllAsync shop (Some hob_from_5)) \<subseteq> set (GetAllAsync shop (Some from_5))"
    by blast
  from t m have e: "mset (GetAllAsync shop (Some hob_from_5)) = {#Include_User shop hobbit#}"
    by simp
  from r m s e show ?thesis by blast
qed

text \<open>
  C2 as stated fails where the category is present and empty: no stored book has the
  empty category, and the listing returns both books.
\<close>

theorem listAll_empty_category_counterexample:
  "filter (matches_as_stated empty_category) (Books shop) = [] \<and>
   GetAllAsync shop (Some empty_category) =
     [Include_User shop cookbook, Include_User shop hobbit]"
proof -
  have "filter (matches_as_stated empty_category) (Books shop) = []"
    by (simp add: matches_as_stated_def empty_category_def shop_eval)
  moreover have "GetAllAsync shop (Some empty_category) =
      [Include_User shop cookbook, Include_User shop hobbit]"
    by (simp add: listing_eval empty_category_def shop_eval)
  ultimately show ?thesis by simp
qed

section \<open>Ownership: update and delete\<close>

lemma find_map_f: "find P (map f xs) = map_option f (find (\<lambda>x. P (f x)) xs)"
  by (induction xs) auto

lemma GetByIdAsync_find:
  "GetByIdAsync ctx i = map_option (Include_User ctx) (find (\<lambda>b. Book.Id b = i) (Books ctx))"
  by (simp add: GetByIdAsync_def find_map_f)

lemma find_key_distinct:
  "distinct (map f xs) \<Longrightarrow> b \<in> set xs \<Longrightarrow> find (\<lambda>x. f x = f b) xs = Some b"
  by (induction xs) (auto simp: image_iff)

lemma primary_key_unique:
  "primary_key ctx \<Longrightarrow> b \<in> set (Books ctx) \<Longrightarrow> b' \<in> set (Books ctx) \<Longrightarrow>
   Book.Id b' = Book.Id b \<Longrightarrow> b' = b"
  by (auto simp: primary_key_def distinct_map inj_on_def)

lemma not_ExistsAsync_foreign:
  assumes "primary_key ctx" "b \<in> set (Books ctx)" "r \<noteq> Book.UserId b"
  shows "\<not> ExistsAsync ctx (Book.Id b) r"
proof
  assume "ExistsAsync ctx (Book.Id b) r"
  then obtain b' where b': "b' \<in> set (Books ctx)" "Book.Id b' = Book.Id b" "Book.UserId b' = r"
    by (auto simp: ExistsAsync_def list_ex_iff)
  with assms have "b' = b" by (auto dest: primary_key_unique)
  with b' assms show False by simp
qed

lemma not_ExistsAsync_missing:
  "i \<notin> Book.Id ` set (Books ctx) \<Longrightarrow> \<not> ExistsAsync ctx i r"
  by (auto simp: ExistsAsync_def list_ex_iff)

lemma UpdateBook_guard:
  "\<not> ExistsAsync ctx i u \<Longrightarrow>
   UpdateBook ctx now (Authenticated (Some u)) i dto =
     (NotFound ''Book not found or you don't have permission to update it'', ctx)"
  by (simp add: UpdateBook_def GetCurrentUserId_def)

lemma DeleteAsync_guard:
  "\<not> ExistsAsync ctx i u \<Longrightarrow> DeleteAsync ctx i u = (False, ctx)"
  by (auto simp: DeleteAsync_def ExistsAsync_def list_ex_iff find_None_iff split: option.splits)

lemma DeleteBook_guard:
  "\<not> ExistsAsync ctx i u \<Longrightarrow>
   DeleteBook ctx (Authenticated (Some u)) i =
     (NotFound ''Book not found or you don't have permission to delete it'', ctx)"
  by (simp add: DeleteBook_def GetCurrentUserId_def DeleteAsync_guard)

text \<open>
  C1. Let the table have its primary key, \<open>b\<close> be a stored book and \<open>r\<close> a requester other
  than its owner. Then, for any fields, \<open>update\<close> on the id of \<open>b\<close> by \<open>r\<close> answers not-found,
  with the very answer an id that is not stored gets, and leaves the store as it was (so
  \<open>getById\<close> still yields \<open>b\<close>; the same holds through the validating endpoint); \<open>delete\<close>
  by \<open>r\<close> returns false, the controller answers not-found, and the store is unchanged.
  Both paths test \<open>Id = id \<and> UserId = requester\<close> before they write
  (\<open>UpdateBook_guard\<close>, \<open>DeleteAsync_guard\<close>).
\<close>

theorem non_owner_update_delete:
  assumes "primary_key ctx" and "b \<in> set (Books ctx)" and "r \<noteq> Book.UserId b"
    and "missing \<notin> Book.Id ` set (Books ctx)"
  shows
    "UpdateBook ctx now (Authenticated (Some r)) (Book.Id b) dto =
       (NotFound ''Book not found or you don't have permission to update it'', ctx) \<and>
     UpdateBook ctx now (Authenticated (Some r)) missing dto =
       (NotFound ''Book not found or you don't have permission to update it'', ctx) \<and>
     snd (PUT_books ctx now (Authenticated (Some r)) (Book.Id b) dto) = ctx \<and>
     GetByIdAsync ctx (Book.Id b) = Some (Include_User ctx b) \<and>
     DeleteAsync ctx (Book.Id b) r = (False, ctx) \<and>
     DeleteBook ctx (Authenticated (Some r)) (Book.Id b) =
       (NotFound ''Book not found or you don't have permission to delete it'', ctx) \<and>
     DeleteBook ctx (Authenticated (Some r)) missing =
       (NotFound ''Book not found or you don't have permission to delete it'', ctx)"
proof -
  have n: "\<not> ExistsAsync ctx (Book.Id b) r"
    using assms by (simp add: not_ExistsAsync_foreign)
  have m: "\<not> ExistsAsync ctx missing r"
    using assms by (simp add: not_ExistsAsync_missing)
  have g: "GetByIdAsync ctx (Book.Id b) = Some (Include_User ctx b)"
  proof -
    have "find (\<lambda>x. Book.Id x = Book.Id b) (Books ctx) = Some b"
      using assms(1,2) by (simp add: primary_key_def find_key_distinct)
    then show ?thesis
      by (simp add: GetByIdAsync_find)
  qed
  show ?thesis
    using n m g
    by (simp add: UpdateBook_guard DeleteAsync_guard DeleteBook_guard PUT_books_def)
qed


theorem non_owner_update_delete_witness:
  "primary_key shop \<and> hobbit \<in> set (Books shop) \<and> (2::nat) \<noteq> Book.UserId hobbit \<and>
   (99::nat) \<notin> Book.Id ` set (Books shop) \<and>
   UpdateBook shop noon (Authenticated (Some 2)) 10 new_price =
     (NotFound ''Book not found or you don't have permission to update it'', shop) \<and>
   GetByIdAsync shop 10 = Some (Include_User shop hobbit) \<and>
   DeleteAsync shop 10 2 = (False, shop)"
proof -
  have h: "primary_key shop" "hobbit \<in> set (Books shop)" "(2::nat) \<noteq> Book.UserId hobbit"
    "(99::nat) \<notin> Book.Id ` set (Books shop)"
    by (simp_all add: primary_key_def shop_eval)
  have i: "Book.Id hobbit = 10" by (simp add: hobbit_def)
  show ?thesis
    using h non_owner_update_delete [OF h, of noon new_price] by (simp add: i)
qed

lemma numeric_10_2_examples:
  "numeric_10_2 12 = Some 12" "numeric_10_2 (9999 / 1000) = Some 10"
  "numeric_10_2 (999 / 100) = Some (999 / 100)"
  by code_simp+

lemma owner_update_example:
  "fst (UpdateBook shop noon (Authenticated (Some 1)) 10 new_price) =
     Ok (MapToDto (Include_User shop (hobbit\<lparr>Book.Price := 12, Book.UpdatedAt := 300\<rparr>))) \<and>
   GetBook (snd (UpdateBook shop noon (Authenticated (Some 1)) 10 new_price)) 10 =
     Ok (MapToDto (Include_User shop (hobbit\<lparr>Book.Price := 12, Book.UpdatedAt := 300\<rparr>)))"
  by (simp add: UpdateBook_def GetCurrentUserId_def ExistsAsync_def GetByIdAsync_def
      UpdateAsync_def UpdateTimestamps_Modified_def Include_User_def MapToDto_def
      numeric_10_2_examples GetBook_def noon_def new_price_def shop_eval)

text \<open>
  C4. For a stored book owned by the caller, the first \<open>delete\<close> returns true (the
  controller: no content), a second \<open>delete\<close> on the same id returns false (the controller:
  not-found, not an error) and changes nothing, and after the first call no listing, under
  any filter, contains a book with that id.
\<close>

theorem delete_twice:
  assumes "b \<in> set (Books ctx)" and "Book.UserId b = u"
  shows
    "fst (DeleteAsync ctx (Book.Id b) u) = True \<and>
     DeleteAsync (snd (DeleteAsync ctx (Book.Id b) u)) (Book.Id b) u =
       (False, snd (DeleteAsync ctx (Book.Id b) u)) \<and>
     Book.Id b \<notin> Book.Id ` set (GetAllAsync (snd (DeleteAsync ctx (Book.Id b) u)) filters) \<and>
     fst (DeleteBook ctx (Authenticated (Some u)) (Book.Id b)) = NoContent \<and>
     DeleteBook (snd (DeleteBook ctx (Authenticated (Some u)) (Book.Id b)))
         (Authenticated (Some u)) (Book.Id b) =
       (NotFound ''Book not found or you don't have permission to delete it'',
        snd (DeleteBook ctx (Authenticated (Some u)) (Book.Id b)))"
proof -
  let ?P = "\<lambda>x. Book.Id x = Book.Id b \<and> Book.UserId x = u"
  from assms have "\<exists>x\<in>set (Books ctx). ?P x" by blast
  then obtain book where f: "find ?P (Books ctx) = Some book"
    by (cases "find ?P (Books ctx)") (auto simp: find_None_iff)
  then have k: "Book.Id book = Book.Id b"
    by (auto simp: find_Some_iff)
  define ctx' where "ctx' = ctx\<lparr>Books := filter (\<lambda>x. Book.Id x \<noteq> Book.Id b) (Books ctx)\<rparr>"
  have d: "DeleteAsync ctx (Book.Id b) u = (True, ctx')"
    using f k by (simp add: DeleteAsync_def ctx'_def)
  have n: "\<not> ExistsAsync ctx' (Book.Id b) u"
    by (auto simp: ExistsAsync_def list_ex_iff ctx'_def)
  have a: "Book.Id b \<notin> Book.Id ` set (GetAllAsync ctx' filters)"
    by (auto simp: set_GetAllAsync ctx'_def)
  have c: "DeleteBook ctx (Authenticated (Some u)) (Book.Id b) = (NoContent, ctx')"
    using d by (simp add: DeleteBook_def GetCurrentUserId_def)
  show ?thesis
    using n a by (simp add: d c DeleteAsync_guard DeleteBook_guard)
qed

theorem delete_twice_witness:
  "hobbit \<in> set (Books shop) \<and> Book.UserId hobbit = 1 \<and>
   DeleteAsync shop 10 1 = (True, shop\<lparr>Books := [cookbook]\<rparr>) \<and>
   DeleteAsync (shop\<lparr>Books := [cookbook]\<rparr>) 10 1 = (False, shop\<lparr>Books := [cookbook]\<rparr>) \<and>
   10 \<notin> Book.Id ` set (GetAllAsync (shop\<lparr>Books := [cookbook]\<rparr>) None)"
proof -
  have h: "hobbit \<in> set (Books shop)" "Book.UserId hobbit = 1"
    by (simp_all add: shop_eval)
  have i: "Book.Id hobbit = 10" by (simp add: hobbit_def)
  have d: "DeleteAsync shop 10 1 = (True, shop\<lparr>Books := [cookbook]\<rparr>)"
    by (simp add: DeleteAsync_def shop_eval)
  show ?thesis
    using h d delete_twice [OF h, of None] by (simp add: i)
qed

section \<open>Create, then read back\<close>


lemma Validate_CreateBookDto_Nil:
  "Validate_CreateBookDto dto = [] \<longleftrightarrow>
     Required_IsValid (CreateBookDto.Name dto) \<and> MaxLength_IsValid 255 (CreateBookDto.Name dto) \<and>
     Required_IsValid (CreateBookDto.Category dto) \<and>
     MaxLength_IsValid 100 (CreateBookDto.Category dto) \<and>
     Range_IsValid 0 (9999999 / 100) (CreateBookDto.Price dto) \<and>
     Required_IsValid (CreateBookDto.Description dto) \<and>
     MaxLength_IsValid 1000 (CreateBookDto.Description dto)"
  by (auto simp: Validate_CreateBookDto_def)




lemmas validation_eval =
  Validate_CreateBookDto_def Validate_UpdateBookDto_def Required_IsValid_def
  MaxLength_IsValid_def Range_IsValid_def IsWhiteSpace_def




section \<open>What the public views carry\<close>

lemma find_in_set: "find P xs = Some x \<Longrightarrow> x \<in> set xs \<and> P x"
  by (induction xs) (auto split: if_splits)

lemma MapToDto_Include_User:
  "BookDto.Id (MapToDto (Include_User ctx b)) = Book.Id b"
  "BookDto.FileUrl (MapToDto (Include_User ctx b)) = Book.FileUrl b"
  "BookDto.User (MapToDto (Include_User ctx b)) =
     map_option (\<lambda>u. \<lparr>UserDto.Id = User.Id u, UserDto.Email = User.Email u,
                       UserDto.FullName = User.FullName u, UserDto.CreatedAt = User.CreatedAt u\<rparr>)
       (find (\<lambda>u. User.Id u = Book.UserId b) (Users ctx))"
  by (simp_all add: MapToDto_def Include_User_def split: option.splits)

text \<open>
  C10. The public listing and the public get-book operation take no caller at all. The
  listing answers with exactly the views of the stored books that satisfy the filter, and
  with no filter with the views of all stored books; get-book on the id of a stored book
  answers with the view of a stored book of that id (of that very book under the primary
  key), and answers with nothing but views of stored books. The view of a book carries
  that book's id and fileUrl and, when the owner's record is found through the foreign
  key, a nested user view with the owner's id and email address (no user view otherwise).
  So whoever calls learns, for every stored book, its download URL and its owner's email.
\<close>

theorem public_views_show_owner_email_and_file:
  "(\<exists>views. GetAllBooks ctx filters = Ok views \<and>
      set views =
        (\<lambda>b. MapToDto (Include_User ctx b)) ` {b \<in> set (Books ctx). matches filters b}) \<and>
   (\<exists>views. GetAllBooks ctx no_filter = Ok views \<and>
      set views = (\<lambda>b. MapToDto (Include_User ctx b)) ` set (Books ctx)) \<and>
   (b \<in> set (Books ctx) \<longrightarrow>
      (\<exists>b' \<in> set (Books ctx). Book.Id b' = Book.Id b \<and>
         GetBook ctx (Book.Id b) = Ok (MapToDto (Include_User ctx b'))) \<and>
      (primary_key ctx \<longrightarrow> GetBook ctx (Book.Id b) = Ok (MapToDto (Include_User ctx b)))) \<and>
   (GetBook ctx id' = Ok v \<longrightarrow> v \<in> (\<lambda>b. MapToDto (Include_User ctx b)) ` set (Books ctx)) \<and>
   BookDto.Id (MapToDto (Include_User ctx b)) = Book.Id b \<and>
   BookDto.FileUrl (MapToDto (Include_User ctx b)) = Book.FileUrl b \<and>
   (case find (\<lambda>u. User.Id u = Book.UserId b) (Users ctx) of
      None \<Rightarrow> BookDto.User (MapToDto (Include_User ctx b)) = None
    | Some owner \<Rightarrow>
        (case BookDto.User (MapToDto (Include_User ctx b)) of
           None \<Rightarrow> False
         | Some view \<Rightarrow> UserDto.Email view = User.Email owner \<and>
                        UserDto.Id view = User.Id owner))"
proof (intro conjI impI)
  have "set (map MapToDto (GetAllAsync ctx (Some filters))) =
      (\<lambda>b. MapToDto (Include_User ctx b)) ` {b \<in> set (Books ctx). matches filters b}"
    by (auto simp: set_GetAllAsync passes_matches)
  then show "\<exists>views. GetAllBooks ctx filters = Ok views \<and>
      set views =
        (\<lambda>b. MapToDto (Include_User ctx b)) ` {b \<in> set (Books ctx). matches filters b}"
    by (simp add: GetAllBooks_def)
  have "set (map MapToDto (GetAllAsync ctx (Some no_filter))) =
      (\<lambda>b. MapToDto (Include_User ctx b)) ` set (Books ctx)"
    by (auto simp: set_GetAllAsync passes_def no_filter_def)
  then show "\<exists>views. GetAllBooks ctx no_filter = Ok views \<and>
      set views = (\<lambda>b. MapToDto (Include_User ctx b)) ` set (Books ctx)"
    by (simp add: GetAllBooks_def)
next
  assume b: "b \<in> set (Books ctx)"
  then obtain b' where f: "find (\<lambda>x. Book.Id x = Book.Id b) (Books ctx) = Some b'"
    by (cases "find (\<lambda>x. Book.Id x = Book.Id b) (Books ctx)") (auto simp: find_None_iff)
  then have "b' \<in> set (Books ctx)" "Book.Id b' = Book.Id b"
    by (auto dest: find_in_set)
  moreover have "GetBook ctx (Book.Id b) = Ok (MapToDto (Include_User ctx b'))"
    by (simp add: GetBook_def GetByIdAsync_find f)
  ultimately show "\<exists>b' \<in> set (Books ctx). Book.Id b' = Book.Id b \<and>
      GetBook ctx (Book.Id b) = Ok (MapToDto (Include_User ctx b'))"
    by blast
next
  assume "b \<in> set (Books ctx)" and "primary_key ctx"
  then have "find (\<lambda>x. Book.Id x = Book.Id b) (Books ctx) = Some b"
    by (simp add: primary_key_def find_key_distinct)
  then show "GetBook ctx (Book.Id b) = Ok (MapToDto (Include_User ctx b))"
    by (simp add: GetBook_def GetByIdAsync_find)
next
  assume "GetBook ctx id' = Ok v"
  then obtain r where "GetByIdAsync ctx id' = Some r" "v = MapToDto r"
    by (auto simp: GetBook_def split: option.splits)
  then show "v \<in> (\<lambda>b. MapToDto (Include_User ctx b)) ` set (Books ctx)"
    by (auto simp: GetByIdAsync_find dest: find_in_set)
next
  show "BookDto.Id (MapToDto (Include_User ctx b)) = Book.Id b"
    and "BookDto.FileUrl (MapToDto (Include_User ctx b)) = Book.FileUrl b"
    by (simp_all add: MapToDto_Include_User)
  show "case find (\<lambda>u. User.Id u = Book.UserId b) (Users ctx) of
      None \<Rightarrow> BookDto.User (MapToDto (Include_User ctx b)) = None
    | Some owner \<Rightarrow>
        (case BookDto.User (MapToDto (Include_User ctx b)) of
           None \<Rightarrow> False
         | Some view \<Rightarrow> UserDto.Email view = User.Email owner \<and>
                        UserDto.Id view = User.Id owner)"
    by (simp add: MapToDto_Include_User split: option.splits)
qed

theorem public_views_show_owner_email_and_file_witness:
  "hobbit \<in> set (Books shop) \<and> primary_key shop \<and>
   GetAllBooks shop no_filter =
     Ok [MapToDto (Include_User shop cookbook), MapToDto (Include_User shop hobbit)] \<and>
   GetBook shop 10 = Ok (MapToDto (Include_User shop hobbit)) \<and>
   BookDto.FileUrl (MapToDto (Include_User shop hobbit)) =
     Some ''http://host/uploads/books/h.pdf'' \<and>
   map_option UserDto.Email (BookDto.User (MapToDto (Include_User shop hobbit))) =
     Some ''a@x.com'' \<and>
   map_option UserDto.Email (BookDto.User (MapToDto (Include_User shop cookbook))) =
     Some ''b@x.com''"
proof -
  note t = public_views_show_owner_email_and_file [where ctx = shop and filters = no_filter
      and b = hobbit and id' = 10 and v = "MapToDto (Include_User shop hobbit)"]
  have h: "hobbit \<in> set (Books shop)" "primary_key shop"
    by (simp_all add: primary_key_def shop_eval)
  have i: "Book.Id hobbit = 10"
    by (simp add: hobbit_def)
  from t h have g: "GetBook shop 10 = Ok (MapToDto (Include_User shop hobbit))"
    unfolding i by blast
  from t have f: "BookDto.FileUrl (MapToDto (Include_User shop hobbit)) = Book.FileUrl hobbit"
    by blast
  have l: "GetAllBooks shop no_filter =
      Ok [MapToDto (Include_User shop cookbook), MapToDto (Include_User shop hobbit)]"
    by (simp add: GetAllBooks_def listing_eval shop_eval)
  have e: "map_option UserDto.Email (BookDto.User (MapToDto (Include_User shop hobbit))) =
      Some ''a@x.com''"
    "map_option UserDto.Email (BookDto.User (MapToDto (Include_User shop cookbook))) =
      Some ''b@x.com''"
    by (simp_all add: MapToDto_def Include_User_def shop_eval)
  from h l g f e show ?thesis
    by (simp add: hobbit_def)
qed

section \<open>Validation\<close>

lemma Validate_UpdateBookDto_Nil:
  "Validate_UpdateBookDto dto = [] \<longleftrightarrow>
     Required_IsValid (UpdateBookDto.Name dto) \<and> MaxLength_IsValid 255 (UpdateBookDto.Name dto) \<and>
     Required_IsValid (UpdateBookDto.Category dto) \<and>
     MaxLength_IsValid 100 (UpdateBookDto.Category dto) \<and>
     Range_IsValid 0 (9999999 / 100) (UpdateBookDto.Price dto) \<and>
     Required_IsValid (UpdateBookDto.Description dto) \<and>
     MaxLength_IsValid 1000 (UpdateBookDto.Description dto)"
  by (auto simp: Validate_UpdateBookDto_def)

lemma Required_IsValid_Nil [simp]: "\<not> Required_IsValid []"
  by (simp add: Required_IsValid_def)

text \<open>
  C9, as amended. Create and update validation require name, category and description
  (a member that is missing, hence empty, is refused) and enforce upper length bounds of
  255 characters on name, 100 on category and 1000 on description: a body that misses a
  required member or exceeds a bound is answered with a validation problem and the store
  is untouched. The bounds are exact: a body is valid precisely when the three strings are
  not blank and within 255, 100 and 1000 characters and the price is within 0 and 99999.99.
\<close>

theorem validation_before_persistence:
  "((CreateBookDto.Name c = [] \<or> 255 < length (CreateBookDto.Name c) \<or>
     CreateBookDto.Category c = [] \<or> 100 < length (CreateBookDto.Category c) \<or>
     CreateBookDto.Description c = [] \<or> 1000 < length (CreateBookDto.Description c)) \<longrightarrow>
    Validate_CreateBookDto c \<noteq> [] \<and>
    POST_books ctx now newGuid (Authenticated requester) c =
      (ValidationProblem (Validate_CreateBookDto c), ctx)) \<and>
   ((UpdateBookDto.Name u = [] \<or> 255 < length (UpdateBookDto.Name u) \<or>
     UpdateBookDto.Category u = [] \<or> 100 < length (UpdateBookDto.Category u) \<or>
     UpdateBookDto.Description u = [] \<or> 1000 < length (UpdateBookDto.Description u)) \<longrightarrow>
    Validate_UpdateBookDto u \<noteq> [] \<and>
    PUT_books ctx now (Authenticated requester) id' u =
      (ValidationProblem (Validate_UpdateBookDto u), ctx)) \<and>
   (Validate_CreateBookDto c = [] \<longleftrightarrow>
      \<not> list_all IsWhiteSpace (CreateBookDto.Name c) \<and> length (CreateBookDto.Name c) \<le> 255 \<and>
      \<not> list_all IsWhiteSpace (CreateBookDto.Category c) \<and>
      length (CreateBookDto.Category c) \<le> 100 \<and>
      \<not> list_all IsWhiteSpace (CreateBookDto.Description c) \<and>
      length (CreateBookDto.Description c) \<le> 1000 \<and>
      0 \<le> CreateBookDto.Price c \<and> CreateBookDto.Price c \<le> 9999999 / 100) \<and>
   (Validate_UpdateBookDto u = [] \<longleftrightarrow>
      \<not> list_all IsWhiteSpace (UpdateBookDto.Name u) \<and> length (UpdateBookDto.Name u) \<le> 255 \<and>
      \<not> list_all IsWhiteSpace (UpdateBookDto.Category u) \<and>
      length (UpdateBookDto.Category u) \<le> 100 \<and>
      \<not> list_all IsWhiteSpace (UpdateBookDto.Description u) \<and>
      length (UpdateBookDto.Description u) \<le> 1000 \<and>
      0 \<le> UpdateBookDto.Price u \<and> UpdateBookDto.Price u \<le> 9999999 / 100)"
proof (intro conjI impI)
  assume bad: "CreateBookDto.Name c = [] \<or> 255 < length (CreateBookDto.Name c) \<or>
     CreateBookDto.Category c = [] \<or> 100 < length (CreateBookDto.Category c) \<or>
     CreateBookDto.Description c = [] \<or> 1000 < length (CreateBookDto.Description c)"
  then show v: "Validate_CreateBookDto c \<noteq> []"
    by (auto simp: Validate_CreateBookDto_Nil MaxLength_IsValid_def)
  then show "POST_books ctx now newGuid (Authenticated requester) c =
      (ValidationProblem (Validate_CreateBookDto c), ctx)"
    by (simp add: POST_books_def)
next
  assume bad: "UpdateBookDto.Name u = [] \<or> 255 < length (UpdateBookDto.Name u) \<or>
     UpdateBookDto.Category u = [] \<or> 100 < length (UpdateBookDto.Category u) \<or>
     UpdateBookDto.Description u = [] \<or> 1000 < length (UpdateBookDto.Description u)"
  then show v: "Validate_UpdateBookDto u \<noteq> []"
    by (auto simp: Validate_UpdateBookDto_Nil MaxLength_IsValid_def)
  then show "PUT_books ctx now (Authenticated requester) id' u =
      (ValidationProblem (Validate_UpdateBookDto u), ctx)"
    by (simp add: PUT_books_def)
next
  show "Validate_CreateBookDto c = [] \<longleftrightarrow>
      \<not> list_all IsWhiteSpace (CreateBookDto.Name c) \<and> length (CreateBookDto.Name c) \<le> 255 \<and>
      \<not> list_all IsWhiteSpace (CreateBookDto.Category c) \<and>
      length (CreateBookDto.Category c) \<le> 100 \<and>
      \<not> list_all IsWhiteSpace (CreateBookDto.Description c) \<and>
      length (CreateBookDto.Description c) \<le> 1000 \<and>
      0 \<le> CreateBookDto.Price c \<and> CreateBookDto.Price c \<le> 9999999 / 100"
    by (auto simp: Validate_CreateBookDto_Nil MaxLength_IsValid_def Required_IsValid_def
        Range_IsValid_def)
  show "Validate_UpdateBookDto u = [] \<longleftrightarrow>
      \<not> list_all IsWhiteSpace (UpdateBookDto.Name u) \<and> length (UpdateBookDto.Name u) \<le> 255 \<and>
      \<not> list_all IsWhiteSpace (UpdateBookDto.Category u) \<and>
      length (UpdateBookDto.Category u) \<le> 100 \<and>
      \<not> list_all IsWhiteSpace (UpdateBookDto.Description u) \<and>
      length (UpdateBookDto.Description u) \<le> 1000 \<and>
      0 \<le> UpdateBookDto.Price u \<and> UpdateBookDto.Price u \<le> 9999999 / 100"
    by (auto simp: Validate_UpdateBookDto_Nil MaxLength_IsValid_def Required_IsValid_def
        Range_IsValid_def)
qed

theorem validation_before_persistence_witness:
  "CreateBookDto.Name no_name = [] \<and>
   POST_books shop noon 12 (Authenticated (Some 1)) no_name = (ValidationProblem [''Name''], shop) \<and>
   100 < length (UpdateBookDto.Category long_category) \<and>
   PUT_books shop noon (Authenticated (Some 1)) 10 long_category =
     (ValidationProblem [''Category''], shop)"
proof -
  have c: "CreateBookDto.Name no_name = []"
    by (simp add: no_name_def)
  have u: "100 < length (UpdateBookDto.Category long_category)"
    by (simp add: long_category_def)
  have vc: "Validate_CreateBookDto no_name = [''Name'']"
    by (simp add: validation_eval no_name_def new_book_def)
  have vu: "Validate_UpdateBookDto long_category = [''Category'']"
    by (simp add: validation_eval long_category_def new_price_def list_all_iff)
  note t = validation_before_persistence [where c = no_name and u = long_category and ctx = shop
      and now = noon and newGuid = 12 and requester = "Some 1" and id' = 10]
  from t c have "POST_books shop noon 12 (Authenticated (Some 1)) no_name =
      (ValidationProblem (Validate_CreateBookDto no_name), shop)"
    by blast
  moreover from t u have "PUT_books shop noon (Authenticated (Some 1)) 10 long_category =
      (ValidationProblem (Validate_UpdateBookDto long_category), shop)"
    by blast
  ultimately show ?thesis
    using c u by (simp add: vc vu)
qed

text \<open>
  C9 as stated has no bound on the description in validation; the DTOs carry
  \<open>[MaxLength(1000)]\<close>: a description of 1000 characters passes, one of 1001 is refused
  for create and for update, before anything is stored.
\<close>

theorem description_bound_counterexample:
  "Validate_CreateBookDto full_description = [] \<and>
   Validate_CreateBookDto long_description = [''Description''] \<and>
   POST_books shop noon 12 (Authenticated (Some 1)) long_description =
     (ValidationProblem [''Description''], shop) \<and>
   Validate_UpdateBookDto long_description_update = [''Description'']"
proof -
  have a: "Validate_CreateBookDto full_description = []"
    by (simp add: validation_eval full_description_def new_book_def list_all_iff)
  have b: "Validate_CreateBookDto long_description = [''Description'']"
    by (simp add: validation_eval long_description_def new_book_def list_all_iff)
  have c: "Validate_UpdateBookDto long_description_update = [''Description'']"
    by (simp add: validation_eval long_description_update_def new_price_def list_all_iff)
  show ?thesis
    by (simp add: a b c POST_books_def)
qed

section \<open>Login\<close>

text \<open>
  C7. Whatever the user table, the hash check and the token service are: a login with an
  email that is not registered and a login with a registered email whose password the
  check refuses both fail with the one answer \<open>Invalid email or password\<close> (status 400);
  the two answers are equal, so the response does not tell which condition held.
\<close>

theorem login_failures_alike:
  assumes "GetByEmailAsync (LoginDto.Email unknown) = None"
    and "GetByEmailAsync (LoginDto.Email wrong) = Some user"
    and "Verify (LoginDto.Password wrong) (User.PasswordHash user) = Some False"
  shows
    "Login GetByEmailAsync Verify GenerateToken unknown = BadRequest ''Invalid email or password'' \<and>
     Login GetByEmailAsync Verify GenerateToken wrong = BadRequest ''Invalid email or password'' \<and>
     Login GetByEmailAsync Verify GenerateToken wrong =
       Login GetByEmailAsync Verify GenerateToken unknown"
proof -
  have "Login GetByEmailAsync Verify GenerateToken unknown = BadRequest ''Invalid email or password''"
    using assms(1) by (simp add: Login_def)
  moreover have "Login GetByEmailAsync Verify GenerateToken wrong =
      BadRequest ''Invalid email or password''"
    using assms(2,3) by (simp add: Login_def)
  ultimately show ?thesis by simp
qed

theorem login_failures_alike_witness:
  "by_email ''unknown@x.com'' = None \<and> by_email ''a@x.com'' = Some alice \<and>
   check_hash ''wrong'' (User.PasswordHash alice) = Some False \<and>
   Login by_email check_hash token_for \<lparr>LoginDto.Email = ''a@x.com'', Password = ''wrong''\<rparr> =
     Login by_email check_hash token_for
       \<lparr>LoginDto.Email = ''unknown@x.com'', Password = ''secret1''\<rparr> \<and>
   Login by_email check_hash token_for \<lparr>LoginDto.Email = ''a@x.com'', Password = ''wrong''\<rparr> =
     BadRequest ''Invalid email or password''"
proof -
  have h: "by_email (LoginDto.Email \<lparr>LoginDto.Email = ''unknown@x.com'', Password = ''secret1''\<rparr>) = None"
    "by_email (LoginDto.Email \<lparr>LoginDto.Email = ''a@x.com'', Password = ''wrong''\<rparr>) = Some alice"
    "check_hash (LoginDto.Password \<lparr>LoginDto.Email = ''a@x.com'', Password = ''wrong''\<rparr>)
       (User.PasswordHash alice) = Some False"
    by (simp_all add: by_email_def check_hash_def alice_def bob_def)
  show ?thesis
    using h login_failures_alike [where GetByEmailAsync = by_email and Verify = check_hash
        and GenerateToken = token_for, OF h]
    by simp
qed

lemma login_success_example:
  "Login by_email check_hash token_for \<lparr>LoginDto.Email = ''a@x.com'', Password = ''secret1''\<rparr> =
     Ok \<lparr>AuthResponseDto.Token = ''token:a@x.com'',
         AuthResponseDto.User =
           \<lparr>UserDto.Id = 1, UserDto.Email = ''a@x.com'', UserDto.FullName = Some ''A'',
            UserDto.CreatedAt = 10\<rparr>\<rparr>"
  by (simp add: Login_def by_email_def check_hash_def token_for_def alice_def bob_def)

section \<open>Uploads\<close>

lemma GetExtension_scan_ext:
  "CHR ''.'' \<notin> set xs \<Longrightarrow> (\<And>c. c \<in> set xs \<Longrightarrow> \<not> sep c) \<Longrightarrow>
   GetExtension_scan sep (xs @ CHR ''.'' # rest) passed =
     (if rev xs @ passed = [] then [] else CHR ''.'' # rev xs @ passed)"
  by (induction xs arbitrary: passed) auto

lemma GetExtension_stem_ext:
  assumes "ext \<noteq> []" "CHR ''.'' \<notin> set ext" "\<And>c. c \<in> set ext \<Longrightarrow> \<not> sep c"
  shows "GetExtension sep (stem @ ''.'' @ ext) = ''.'' @ ext"
  using assms GetExtension_scan_ext [of "rev ext" sep "rev stem" "[]"]
  by (simp add: GetExtension_def)

text \<open>
  C6. For both kinds of upload, for every host, caller and disk: a missing or empty
  payload is refused first, whatever its size and name; otherwise a payload larger than the
  kind's cap (5 MiB for images, 100 MiB for documents) is refused, whatever its name;
  otherwise a file whose lowered extension is outside the kind's list (images: jpg, jpeg,
  png, gif, webp; documents: pdf, epub, docx, doc, txt, mobi, azw3) is refused. In each
  refusal the disk is returned as it was given.
\<close>

theorem upload_rejections:
  "UploadImage env fs user newGuid utcNow None bookId = (BadRequest ''No file provided'', fs) \<and>
   UploadBookFile env fs user newGuid utcNow None bookId = (BadRequest ''No file provided'', fs) \<and>
   (IFormFile.Length e = 0 \<longrightarrow>
      UploadImage env fs user newGuid utcNow (Some e) bookId =
        (BadRequest ''No file provided'', fs) \<and>
      UploadBookFile env fs user newGuid utcNow (Some e) bookId =
        (BadRequest ''No file provided'', fs)) \<and>
   (5 * 1024 * 1024 < IFormFile.Length big \<longrightarrow>
      UploadImage env fs user newGuid utcNow (Some big) bookId =
        (BadRequest ''File size exceeds maximum allowed size of 5MB'', fs)) \<and>
   (100 * 1024 * 1024 < IFormFile.Length big \<longrightarrow>
      UploadBookFile env fs user newGuid utcNow (Some big) bookId =
        (BadRequest ''File size exceeds maximum allowed size of 100MB'', fs)) \<and>
   (IFormFile.Length f \<noteq> 0 \<and> IFormFile.Length f \<le> 5 * 1024 * 1024 \<and>
    ToLowerInvariant (GetExtension (IsDirectorySeparator env) (IFormFile.FileName f)) \<notin>
      {''.jpg'', ''.jpeg'', ''.png'', ''.gif'', ''.webp''} \<longrightarrow>
      UploadImage env fs user newGuid utcNow (Some f) bookId =
        (BadRequest ''Invalid file type. Only image files are allowed.'', fs)) \<and>
   (IFormFile.Length f \<noteq> 0 \<and> IFormFile.Length f \<le> 100 * 1024 * 1024 \<and>
    ToLowerInvariant (GetExtension (IsDirectorySeparator env) (IFormFile.FileName f)) \<notin>
      {''.pdf'', ''.epub'', ''.docx'', ''.doc'', ''.txt'', ''.mobi'', ''.azw3''} \<longrightarrow>
      UploadBookFile env fs user newGuid utcNow (Some f) bookId =
        (BadRequest ''Invalid file type. Only book files (PDF, EPUB, DOCX, etc.) are allowed.'',
         fs))"
proof (intro conjI impI)
  show "UploadImage env fs user newGuid utcNow None bookId = (BadRequest ''No file provided'', fs)"
    by (simp add: UploadImage_def)
  show "UploadBookFile env fs user newGuid utcNow None bookId =
      (BadRequest ''No file provided'', fs)"
    by (simp add: UploadBookFile_def)
next
  assume "IFormFile.Length e = 0"
  then show "UploadImage env fs user newGuid utcNow (Some e) bookId =
      (BadRequest ''No file provided'', fs)"
    and "UploadBookFile env fs user newGuid utcNow (Some e) bookId =
      (BadRequest ''No file provided'', fs)"
    by (simp_all add: UploadImage_def UploadBookFile_def)
next
  assume "5 * 1024 * 1024 < IFormFile.Length big"
  then show "UploadImage env fs user newGuid utcNow (Some big) bookId =
      (BadRequest ''File size exceeds maximum allowed size of 5MB'', fs)"
    by (simp add: UploadImage_def MaxImageSize_def)
next
  assume "100 * 1024 * 1024 < IFormFile.Length big"
  then show "UploadBookFile env fs user newGuid utcNow (Some big) bookId =
      (BadRequest ''File size exceeds maximum allowed size of 100MB'', fs)"
    by (simp add: UploadBookFile_def MaxBookSize_def)
next
  assume "IFormFile.Length f \<noteq> 0 \<and> IFormFile.Length f \<le> 5 * 1024 * 1024 \<and>
    ToLowerInvariant (GetExtension (IsDirectorySeparator env) (IFormFile.FileName f)) \<notin>
      {''.jpg'', ''.jpeg'', ''.png'', ''.gif'', ''.webp''}"
  then show "UploadImage env fs user newGuid utcNow (Some f) bookId =
      (BadRequest ''Invalid file type. Only image files are allowed.'', fs)"
    by (simp add: UploadImage_def MaxImageSize_def allowedImageExtensions_def Let_def)
next
  assume "IFormFile.Length f \<noteq> 0 \<and> IFormFile.Length f \<le> 100 * 1024 * 1024 \<and>
    ToLowerInvariant (GetExtension (IsDirectorySeparator env) (IFormFile.FileName f)) \<notin>
      {''.pdf'', ''.epub'', ''.docx'', ''.doc'', ''.txt'', ''.mobi'', ''.azw3''}"
  then show "UploadBookFile env fs user newGuid utcNow (Some f) bookId =
      (BadRequest ''Invalid file type. Only book files (PDF, EPUB, DOCX, etc.) are allowed.'',
         fs)"
    by (simp add: UploadBookFile_def MaxBookSize_def allowedBookExtensions_def Let_def)
qed

lemma exe_extension:
  "ToLowerInvariant (GetExtension (IsDirectorySeparator host) (IFormFile.FileName exe_file)) = ''.exe''"
  by (simp add: ToLowerInvariant_def GetExtension_def host_def exe_file_def ToLower_char_def)

theorem upload_rejections_witness:
  "IFormFile.Length empty_file = 0 \<and>
   UploadImage host disk (Authenticated (Some 1)) ''g'' ''20250101000000'' (Some empty_file) None =
     (BadRequest ''No file provided'', disk) \<and>
   100 * 1024 * 1024 < IFormFile.Length huge_file \<and>
   UploadImage host disk (Authenticated (Some 1)) ''g'' ''20250101000000'' (Some huge_file) None =
     (BadRequest ''File size exceeds maximum allowed size of 5MB'', disk) \<and>
   UploadBookFile host disk (Authenticated (Some 1)) ''g'' ''20250101000000'' (Some huge_file) None =
     (BadRequest ''File size exceeds maximum allowed size of 100MB'', disk) \<and>
   ToLowerInvariant (GetExtension (IsDirectorySeparator host) (IFormFile.FileName exe_file)) = ''.exe'' \<and>
   UploadImage host disk (Authenticated (Some 1)) ''g'' ''20250101000000'' (Some exe_file) None =
     (BadRequest ''Invalid file type. Only image files are allowed.'', disk) \<and>
   UploadBookFile host disk (Authenticated (Some 1)) ''g'' ''20250101000000'' (Some exe_file) None =
     (BadRequest ''Invalid file type. Only book files (PDF, EPUB, DOCX, etc.) are allowed.'',
      disk)"
proof -
  note t = upload_rejections [where env = host and fs = disk and user = "Authenticated (Some 1)"
      and newGuid = "''g''" and utcNow = "''20250101000000''" and bookId = None
      and e = empty_file and big = huge_file and f = exe_file]
  have e: "IFormFile.Length empty_file = 0"
    by (simp add: empty_file_def)
  have b: "100 * 1024 * 1024 < IFormFile.Length huge_file" "5 * 1024 * 1024 < IFormFile.Length huge_file"
    by (simp_all add: huge_file_def)
  have f: "IFormFile.Length exe_file \<noteq> 0" "IFormFile.Length exe_file \<le> 5 * 1024 * 1024"
    "IFormFile.Length exe_file \<le> 100 * 1024 * 1024"
    by (simp_all add: exe_file_def)
  have x: "ToLowerInvariant (GetExtension (IsDirectorySeparator host) (IFormFile.FileName exe_file)) = ''.exe''"
    by (rule exe_extension)
  have xi: "ToLowerInvariant (GetExtension (IsDirectorySeparator host) (IFormFile.FileName exe_file)) \<notin>
      {''.jpg'', ''.jpeg'', ''.png'', ''.gif'', ''.webp''}"
    and xb: "ToLowerInvariant (GetExtension (IsDirectorySeparator host) (IFormFile.FileName exe_file)) \<notin>
      {''.pdf'', ''.epub'', ''.docx'', ''.doc'', ''.txt'', ''.mobi'', ''.azw3''}"
    by (simp_all add: x)
  from t e have 1: "UploadImage host disk (Authenticated (Some 1)) ''g'' ''20250101000000'' (Some empty_file) None =
     (BadRequest ''No file provided'', disk)" by blast
  from t b have 2: "UploadImage host disk (Authenticated (Some 1)) ''g'' ''20250101000000'' (Some huge_file) None =
     (BadRequest ''File size exceeds maximum allowed size of 5MB'', disk)" by blast
  from t b have 3: "UploadBookFile host disk (Authenticated (Some 1)) ''g'' ''20250101000000'' (Some huge_file) None =
     (BadRequest ''File size exceeds maximum allowed size of 100MB'', disk)" by blast
  from t f xi have 4: "UploadImage host disk (Authenticated (Some 1)) ''g'' ''20250101000000'' (Some exe_file) None =
     (BadRequest ''Invalid file type. Only image files are allowed.'', disk)" by blast
  from t f xb have 5: "UploadBookFile host disk (Authenticated (Some 1)) ''g'' ''20250101000000'' (Some exe_file) None =
     (BadRequest ''Invalid file type. Only book files (PDF, EPUB, DOCX, etc.) are allowed.'',
      disk)" by blast
  from e b(1) x 1 2 3 4 5 show ?thesis by blast
qed

lemma upload_image_example:
  "UploadImage host disk (Authenticated (Some 1)) ''g'' ''20250101000000'' (Some png_file) None =
     (Ok \<lparr>url = ''https://books.example/uploads/images/g-20250101000000.png'',
          fileName = ''Cover.PNG'', size' = 3\<rparr>,
      \<lparr>Directories = {''/srv/wwwroot/uploads/images''},
       Files = [''/srv/wwwroot/uploads/images/g-20250101000000.png'' \<mapsto> [137, 80, 78]]\<rparr>)"
  by (simp add: UploadImage_def MaxImageSize_def allowedImageExtensions_def Let_def
      ToLowerInvariant_def GetExtension_def host_def disk_def png_file_def ToLower_char_def
      char_of_def bit_Suc_0_iff GetCurrentUserId_def Path_Combine_def)

section \<open>JavaScript numbers: lemmas\<close>

lemma bit_length_bounds:
  "0 < n \<Longrightarrow> 2 ^ (bit_length n - 1) \<le> n \<and> n < 2 ^ bit_length n"
proof (induction n rule: bit_length.induct)
  case (1 n)
  show ?case
  proof (cases "n = 1")
    case True
    then show ?thesis
      by (simp add: bit_length.simps [of 1] bit_length.simps [of 0])
  next
    case False
    with "1.prems" have h: "0 < n div 2" "\<not> n \<le> 0"
      by simp_all
    with "1.IH" have ih: "2 ^ (bit_length (n div 2) - 1) \<le> n div 2"
      "n div 2 < 2 ^ bit_length (n div 2)"
      by simp_all
    have pos: "0 < bit_length (n div 2)"
      using h(1) by (subst bit_length.simps) simp
    have b: "bit_length n = Suc (bit_length (n div 2))"
      using h(2) by (subst bit_length.simps) simp
    have "2 * 2 ^ (bit_length (n div 2) - 1) \<le> 2 * (n div 2)"
      using ih(1) by simp
    also have "\<dots> \<le> n"
      by simp
    finally have lo: "2 ^ (bit_length n - 1) \<le> n"
      using pos by (simp add: b power_Suc [symmetric] del: power_Suc)
    have "n div 2 + 1 \<le> 2 ^ bit_length (n div 2)"
      using ih(2) by simp
    then have "2 * (n div 2) + 2 \<le> 2 * 2 ^ bit_length (n div 2)"
      by simp
    moreover have "n < 2 * (n div 2) + 2"
      by presburger
    ultimately have hi: "n < 2 ^ bit_length n"
      by (simp add: b)
    from lo hi show ?thesis by simp
  qed
qed

lemma bit_length_le:
  assumes "0 < n" and "n < 2 ^ k"
  shows "bit_length n \<le> k"
proof (rule ccontr)
  assume "\<not> bit_length n \<le> k"
  then have "k \<le> bit_length n - 1"
    by simp
  then have "(2::int) ^ k \<le> 2 ^ (bit_length n - 1)"
    by (simp add: power_increasing)
  also have "\<dots> \<le> n"
    using bit_length_bounds [OF assms(1)] by simp
  finally show False
    using assms(2) by simp
qed

lemma round_half_even_of_int [simp]: "round_half_even (of_int m) = m"
  by (simp add: round_half_even_def)

lemma round_to_double_of_int:
  assumes "0 \<le> n" and "n < 2 ^ 53"
  shows "round_to_double (of_int n) = Num (of_int n)"
proof (cases "n = 0")
  case True
  then show ?thesis by (simp add: round_to_double_def)
next
  case False
  with assms have pos: "0 < n" by simp
  define b where "b = bit_length n"
  have b: "0 < b" "b \<le> 53"
    using pos assms(2) bit_length_bounds [of n] bit_length_le [of n 53]
    by (auto simp: b_def intro: Suc_lessI ccontr)
  have fl: "floor_log2 (of_int n) = int b - 1"
    using pos by (simp add: floor_log2_def b_def)
  define d where "d = 53 - b"
  have "int b - 53 = - int d"
    using b unfolding d_def by linarith
  then have e: "max (floor_log2 (of_int n) - 52) (- 1074) = - int d"
    using b by (simp add: fl d_def)
  have p: "pow2 (- int d) = 1 / 2 ^ d"
    by (cases "d = 0") (simp_all add: pow2_def)
  have q: "(of_int n :: rat) / (1 / 2 ^ d) = of_int (n * 2 ^ d)"
    by simp
  have r: "of_int (round_half_even (of_int n / pow2 (- int d))) * pow2 (- int d) =
      (of_int n :: rat)"
    unfolding p q round_half_even_of_int by simp
  have "\<not> 1024 \<le> floor_log2 (of_int n)"
    using b by (simp add: fl)
  then show ?thesis
    using pos by (simp add: round_to_double_def Let_def e r)
qed

lemma foldl_js_add_whole:
  fixes ns :: "nat list"
  assumes "s + sum_list ns < 2 ^ 53"
  shows "foldl js_add (Num (of_nat s)) (map (\<lambda>n. round_to_double (of_nat n)) ns) =
         Num (of_nat (s + sum_list ns))"
  using assms
proof (induction ns arbitrary: s)
  case Nil
  then show ?case by simp
next
  case (Cons n ns)
  have n: "round_to_double (of_nat n) = Num (of_nat n)"
    using Cons.prems round_to_double_of_int [of "int n"] by (simp add: of_nat_less_numeral_power_cancel_iff [symmetric] del: of_nat_less_numeral_power_cancel_iff)
  have sn: "round_to_double (of_nat s + of_nat n) = Num (of_nat (s + n))"
    using Cons.prems round_to_double_of_int [of "int (s + n)"] by simp
  show ?case
    using Cons.IH [of "s + n"] Cons.prems by (simp add: n sn add.assoc)
qed


lemma floor_log2_ge:
  assumes "0 < r" and "0 < k"
  shows "int k \<le> floor_log2 r \<longleftrightarrow> 2 ^ k \<le> r"
proof (cases "1 \<le> r")
  case False
  have "(1::rat) \<le> 2 ^ k"
    by (rule one_le_power) simp
  with False have "\<not> 2 ^ k \<le> r"
    by linarith
  with False assms(2) show ?thesis
    by (simp add: floor_log2_def)
next
  case True
  then have n: "0 < \<lfloor>r\<rfloor>"
    by simp
  have "2 ^ k \<le> r \<longleftrightarrow> (2::int) ^ k \<le> \<lfloor>r\<rfloor>"
    by (metis le_floor_iff of_int_numeral of_int_power)
  also have "\<dots> \<longleftrightarrow> Suc k \<le> bit_length \<lfloor>r\<rfloor>"
  proof
    assume "(2::int) ^ k \<le> \<lfloor>r\<rfloor>"
    also have "\<lfloor>r\<rfloor> < 2 ^ bit_length \<lfloor>r\<rfloor>"
      using bit_length_bounds [OF n] by simp
    finally have "k < bit_length \<lfloor>r\<rfloor>"
      by (simp add: power_strict_increasing_iff)
    then show "Suc k \<le> bit_length \<lfloor>r\<rfloor>"
      by simp
  next
    assume "Suc k \<le> bit_length \<lfloor>r\<rfloor>"
    then have "k \<le> bit_length \<lfloor>r\<rfloor> - 1"
      by simp
    then have "(2::int) ^ k \<le> 2 ^ (bit_length \<lfloor>r\<rfloor> - 1)"
      by (rule power_increasing) simp
    also have "\<dots> \<le> \<lfloor>r\<rfloor>"
      using bit_length_bounds [OF n] by simp
    finally show "(2::int) ^ k \<le> \<lfloor>r\<rfloor>" .
  qed
  also have "\<dots> \<longleftrightarrow> int k \<le> floor_log2 r"
    using True by (simp add: floor_log2_def) linarith
  finally show ?thesis ..
qed

lemma whole_prices:
  "(\<And>x. x \<in> set xs \<Longrightarrow> \<exists>n::nat. x = of_nat n) \<Longrightarrow> \<exists>ns::nat list. xs = map of_nat ns"
  for xs :: "rat list"
proof (induction xs)
  case Nil
  then show ?case by simp
next
  case (Cons x xs)
  then obtain n :: nat and ns :: "nat list" where "x = of_nat n" "xs = map of_nat ns"
    by (metis list.set_intros)
  then have "x # xs = map of_nat (n # ns)"
    by simp
  then show ?case ..
qed

lemma sum_list_whole: "sum_list (map of_nat ns) = (of_nat (sum_list ns) :: rat)"
  by (induction ns) simp_all

section \<open>Statistics\<close>

lemma Set_add_all_props:
  "distinct entries \<Longrightarrow>
   distinct (Set_add_all entries vs) \<and>
   set (Set_add_all entries vs) = set entries \<union> set vs"
  by (induction entries vs rule: Set_add_all.induct) auto

lemma length_new_Set: "length (new_Set vs) = card (set vs)"
proof -
  have "distinct (new_Set vs)" "set (new_Set vs) = set vs"
    using Set_add_all_props [of "[]" vs] by (simp_all add: new_Set_def)
  then show ?thesis
    by (metis distinct_card)
qed

lemma query_params_None: "query_params None = no_filter"
  by (simp add: query_params_def no_filter_def)

lemma passes_no_filter [simp]: "passes (Some no_filter) b"
  by (simp add: passes_def no_filter_def)

lemma passes_None [simp]: "passes None b"
  by (simp add: passes_def)

lemma GetByUserIdAsync_no_filter:
  "GetByUserIdAsync ctx ownerId (Some no_filter) = GetByUserIdAsync ctx ownerId None"
  by (simp add: GetByUserIdAsync_filter)

lemma getMyBooks_owner:
  "getMyBooks ctx (Authenticated (Some ownerId)) None =
     Inr (map JSON_parse (map MapToDto (GetByUserIdAsync ctx ownerId (Some no_filter))))"
  by (simp add: getMyBooks_def GET_books_my_books_def GetMyBooks_def GetCurrentUserId_def
      query_params_None)

lemma JSON_parse_columns:
  "map ApiBook.price (map JSON_parse (map MapToDto xs)) =
     map (\<lambda>b. round_to_double (Book.Price b)) xs"
  "map ApiBook.category (map JSON_parse (map MapToDto xs)) = map Book.Category xs"
  by (simp_all add: JSON_parse_def MapToDto_def)

lemma foldl_map_arg: "foldl (\<lambda>sum x. g sum (f x)) a xs = foldl g a (map f xs)"
  by (induction xs arbitrary: a) simp_all

lemma loadStats_owner:
  "loadStats ctx (Authenticated (Some ownerId)) previous =
     \<lparr>totalBooks = length (GetByUserIdAsync ctx ownerId (Some no_filter)),
      totalValue =
        foldl js_add (Num 0)
          (map (\<lambda>b. round_to_double (Book.Price b))
             (GetByUserIdAsync ctx ownerId (Some no_filter))),
      categoriesCount =
        card (Book.Category ` set (GetByUserIdAsync ctx ownerId (Some no_filter)))\<rparr>"
proof -
  let ?mine = "GetByUserIdAsync ctx ownerId (Some no_filter)"
  let ?books = "map JSON_parse (map MapToDto ?mine)"
  have "loadStats ctx (Authenticated (Some ownerId)) previous =
      \<lparr>totalBooks = length ?books,
       totalValue = foldl (\<lambda>sum book. js_add sum (ApiBook.price book)) (Num 0) ?books,
       categoriesCount = length (new_Set (map ApiBook.category ?books))\<rparr>"
    by (simp add: loadStats_def getMyBooks_owner Let_def)
  also have "\<dots> =
      \<lparr>totalBooks = length ?mine,
       totalValue = foldl js_add (Num 0) (map (\<lambda>b. round_to_double (Book.Price b)) ?mine),
       categoriesCount = card (Book.Category ` set ?mine)\<rparr>"
    by (simp only: foldl_map_arg length_new_Set JSON_parse_columns length_map set_map)
  finally show ?thesis .
qed

text \<open>
  C5, as amended. For every owner and every population, the statistics the dashboard
  computes are a function of \<open>listByOwner\<close> with no filter alone, whatever the statistics
  shown before: the count is the length of that list, the number of categories the number
  of distinct category values in it, and the total value is what the prices, each read as
  the nearest double, add up to from 0 in the order of the list in double arithmetic. That
  total is the exact sum of the prices when they are whole numbers with a sum below
  \<open>2 ^ 53\<close>; in general each addition rounds. The list holds exactly the stored books of
  the owner. The Supabase variant computes the same three figures from the rows its query
  returns, with a zero or NaN total shown as 0. Neither writes to the store.
\<close>

theorem stats_from_listByOwner:
  "loadStats ctx (Authenticated (Some ownerId)) previous =
     \<lparr>totalBooks = length (GetByUserIdAsync ctx ownerId (Some no_filter)),
      totalValue =
        foldl js_add (Num 0)
          (map (\<lambda>b. round_to_double (Book.Price b))
             (GetByUserIdAsync ctx ownerId (Some no_filter))),
      categoriesCount =
        card (Book.Category ` set (GetByUserIdAsync ctx ownerId (Some no_filter)))\<rparr> \<and>
   ((\<forall>b \<in> set (GetByUserIdAsync ctx ownerId (Some no_filter)). \<exists>n::nat. Book.Price b = of_nat n) \<and>
    sum_list (map Book.Price (GetByUserIdAsync ctx ownerId (Some no_filter))) < 2 ^ 53 \<longrightarrow>
    totalValue (loadStats ctx (Authenticated (Some ownerId)) previous) =
      Num (sum_list (map Book.Price (GetByUserIdAsync ctx ownerId (Some no_filter))))) \<and>
   mset (GetByUserIdAsync ctx ownerId (Some no_filter)) =
     mset (map (Include_User ctx) (filter (\<lambda>b. Book.UserId b = ownerId) (Books ctx))) \<and>
   getBookStats (Inr (Some rows)) =
     Inr \<lparr>totalBooks = length rows,
          totalValue = or_zero (foldl js_add (Num 0) (map fst rows)),
          categoriesCount = card (snd ` set rows)\<rparr>"
proof (intro conjI impI)
  let ?mine = "GetByUserIdAsync ctx ownerId (Some no_filter)"
  show "loadStats ctx (Authenticated (Some ownerId)) previous =
      \<lparr>totalBooks = length ?mine,
       totalValue = foldl js_add (Num 0) (map (\<lambda>b. round_to_double (Book.Price b)) ?mine),
       categoriesCount = card (Book.Category ` set ?mine)\<rparr>"
    by (rule loadStats_owner)
  show "mset ?mine =
      mset (map (Include_User ctx) (filter (\<lambda>b. Book.UserId b = ownerId) (Books ctx)))"
    by (simp add: GetByUserIdAsync_filter filter_map o_def)
  show "getBookStats (Inr (Some rows)) =
     Inr \<lparr>totalBooks = length rows,
          totalValue = or_zero (foldl js_add (Num 0) (map fst rows)),
          categoriesCount = card (snd ` set rows)\<rparr>"
    by (simp add: getBookStats_def Let_def foldl_map_arg length_new_Set)
next
  let ?mine = "GetByUserIdAsync ctx ownerId (Some no_filter)"
  assume a: "(\<forall>b \<in> set ?mine. \<exists>n::nat. Book.Price b = of_nat n) \<and>
    sum_list (map Book.Price ?mine) < 2 ^ 53"
  then have "\<And>x. x \<in> set (map Book.Price ?mine) \<Longrightarrow> \<exists>n::nat. x = of_nat n"
    by auto
  then obtain ns :: "nat list" where ns: "map Book.Price ?mine = map of_nat ns"
    using whole_prices by blast
  have total: "sum_list (map Book.Price ?mine) = of_nat (sum_list ns)"
    by (simp add: ns sum_list_whole)
  with a have "(of_nat (sum_list ns) :: rat) < 2 ^ 53"
    by simp
  then have small: "0 + sum_list ns < 2 ^ 53"
    by (metis add_0 of_nat_less_numeral_power_cancel_iff)
  have "map (\<lambda>b. round_to_double (Book.Price b)) ?mine =
      map round_to_double (map Book.Price ?mine)"
    by simp
  also have "\<dots> = map (\<lambda>n. round_to_double (of_nat n)) ns"
    by (simp add: ns)
  finally have "foldl js_add (Num 0) (map (\<lambda>b. round_to_double (Book.Price b)) ?mine) =
      Num (of_nat (sum_list ns))"
    using foldl_js_add_whole [OF small] by simp
  then show "totalValue (loadStats ctx (Authenticated (Some ownerId)) previous) =
      Num (sum_list (map Book.Price ?mine))"
    by (simp add: loadStats_owner total)
qed

theorem stats_from_listByOwner_witness:
  "map Book.Price (GetByUserIdAsync shop 2 (Some no_filter)) = [of_nat 20] \<and>
   loadStats shop (Authenticated (Some 2)) no_stats =
     \<lparr>totalBooks = 1, totalValue = Num 20, categoriesCount = 1\<rparr>"
proof -
  have l: "GetByUserIdAsync shop 2 (Some no_filter) = [Include_User shop cookbook]"
    by (simp add: listing_eval shop_eval)
  have p: "Book.Price (Include_User shop cookbook) = of_nat 20"
    "Book.Category (Include_User shop cookbook) = ''Food''"
    by (simp_all add: Include_User_def cookbook_def)
  note t = stats_from_listByOwner [of shop 2 no_stats "[]"]
  have whole: "\<forall>b \<in> set (GetByUserIdAsync shop 2 (Some no_filter)). \<exists>n::nat. Book.Price b = of_nat n"
    unfolding l using p(1) by auto
  have small: "sum_list (map Book.Price (GetByUserIdAsync shop 2 (Some no_filter))) < 2 ^ 53"
    unfolding l by (simp add: p)
  from t whole small
  have v: "totalValue (loadStats shop (Authenticated (Some 2)) no_stats) =
      Num (sum_list (map Book.Price (GetByUserIdAsync shop 2 (Some no_filter))))"
    by blast
  from t have s: "loadStats shop (Authenticated (Some 2)) no_stats =
      \<lparr>totalBooks = length (GetByUserIdAsync shop 2 (Some no_filter)),
       totalValue =
         foldl js_add (Num 0)
           (map (\<lambda>b. round_to_double (Book.Price b))
              (GetByUserIdAsync shop 2 (Some no_filter))),
       categoriesCount =
         card (Book.Category ` set (GetByUserIdAsync shop 2 (Some no_filter)))\<rparr>"
    by blast
  have "totalValue (loadStats shop (Authenticated (Some 2)) no_stats) = Num 20"
    using v unfolding l by (simp add: p)
  moreover have "totalBooks (loadStats shop (Authenticated (Some 2)) no_stats) = 1"
    "categoriesCount (loadStats shop (Authenticated (Some 2)) no_stats) = 1"
    unfolding s l by simp_all
  ultimately have "loadStats shop (Authenticated (Some 2)) no_stats =
      \<lparr>totalBooks = 1, totalValue = Num 20, categoriesCount = 1\<rparr>"
    by (cases "loadStats shop (Authenticated (Some 2)) no_stats") simp
  moreover have "map Book.Price (GetByUserIdAsync shop 2 (Some no_filter)) = [of_nat 20]"
    unfolding l by (simp add: p)
  ultimately show ?thesis by blast
qed

text \<open>
  C5 as stated fails on prices with cents: an owner with the books priced 20 and 9.99
  (exact sum 29.99) is shown the total 29.990000000000002, which is neither 29.99 nor
  the double nearest to it.
\<close>

lemma twenty_plus_cents:
  "js_add (js_add (Num 0) (round_to_double 20)) (round_to_double (999 / 100)) =
     Num (4220717275776287 / 140737488355328)"
  "round_to_double (2999 / 100) = Num (8441434551552573 / 281474976710656)"
  by code_simp+

theorem stats_total_counterexample:
  "map Book.Price (GetByUserIdAsync shelf 1 (Some no_filter)) = [20, 999 / 100] \<and>
   sum_list (map Book.Price (GetByUserIdAsync shelf 1 (Some no_filter))) = 2999 / 100 \<and>
   totalValue (loadStats shelf (Authenticated (Some 1)) no_stats) =
     Num (4220717275776287 / 140737488355328) \<and>
   (4220717275776287 / 140737488355328 :: rat) \<noteq> 2999 / 100 \<and>
   round_to_double (2999 / 100) \<noteq> Num (4220717275776287 / 140737488355328)"
proof -
  have l: "GetByUserIdAsync shelf 1 (Some no_filter) =
      [Include_User shelf atlas, Include_User shelf hobbit]"
    by (simp add: listing_eval shelf_def hobbit_def atlas_def alice_def bob_def no_filter_def)
  have p: "Book.Price (Include_User shelf atlas) = 20"
    "Book.Price (Include_User shelf hobbit) = 999 / 100"
    by (simp_all add: Include_User_def atlas_def hobbit_def)
  have "totalValue (loadStats shelf (Authenticated (Some 1)) no_stats) =
      js_add (js_add (Num 0) (round_to_double 20)) (round_to_double (999 / 100))"
    unfolding loadStats_owner l by (simp add: p)
  then show ?thesis
    unfolding l by (simp add: p twenty_plus_cents)
qed

end
